theory Spec2Isabelle
  imports Complex_Main "HOL-Library.Sublist"
begin

section \<open>JavaScript numbers\<close>

text \<open>
  A JavaScript \<^verbatim>\<open>number\<close> is a finite value, one of the two infinities, or NaN. The
  source writes \<^verbatim>\<open>-Infinity\<close> literally (the filter of \<^verbatim>\<open>App.tsx\<close>), so the
  infinities are values of the model. A finite value is a real. Two doubles compare as
  the reals they are, so the comparisons are exact. The sum or the product of two doubles
  is in general no double: \<open>num_add\<close> and \<open>num_mul\<close> are the exact results, and \<open>add64\<close>
  and \<open>mul64\<close> below round them to binary64 as the program does. The sign of zero is not
  modelled.
\<close>

datatype number = NaN | NegInfinity | Finite real | Infinity

text \<open>\<^verbatim>\<open>a >= b\<close>: false as soon as one side is NaN.\<close>

fun num_ge :: "number \<Rightarrow> number \<Rightarrow> bool" where
  "num_ge NaN b = False"
| "num_ge a NaN = False"
| "num_ge Infinity b = True"
| "num_ge a NegInfinity = True"
| "num_ge NegInfinity b = False"
| "num_ge (Finite a) Infinity = False"
| "num_ge (Finite a) (Finite b) = (b \<le> a)"

fun is_negative :: "number \<Rightarrow> bool" where
  "is_negative NegInfinity = True"
| "is_negative (Finite a) = (a < 0)"
| "is_negative n = False"

text \<open>\<^verbatim>\<open>a + b\<close>, before rounding.\<close>

fun num_add :: "number \<Rightarrow> number \<Rightarrow> number" where
  "num_add NaN b = NaN"
| "num_add a NaN = NaN"
| "num_add (Finite a) (Finite b) = Finite (a + b)"
| "num_add Infinity NegInfinity = NaN"
| "num_add NegInfinity Infinity = NaN"
| "num_add Infinity b = Infinity"
| "num_add a Infinity = Infinity"
| "num_add NegInfinity b = NegInfinity"
| "num_add a NegInfinity = NegInfinity"

text \<open>
  \<^verbatim>\<open>a * b\<close>, before rounding: an infinity times zero is NaN, otherwise the signs decide.
\<close>

fun num_mul :: "number \<Rightarrow> number \<Rightarrow> number" where
  "num_mul NaN b = NaN"
| "num_mul a NaN = NaN"
| "num_mul (Finite a) (Finite b) = Finite (a * b)"
| "num_mul a b =
     (if a = Finite 0 \<or> b = Finite 0 then NaN
      else if is_negative a = is_negative b then Infinity else NegInfinity)"

text \<open>\<^verbatim>\<open>Math.max(a, b)\<close>: NaN if either argument is NaN.\<close>

fun math_max :: "number \<Rightarrow> number \<Rightarrow> number" where
  "math_max NaN b = NaN"
| "math_max a NaN = NaN"
| "math_max a b = (if num_ge a b then a else b)"

text \<open>
  Rounding to binary64. \<open>ulp64 x\<close> is the spacing of the doubles around \<open>x\<close>: 2 to the
  power e - 52, where e is the binary exponent of \<open>x\<close>, and never less than 2 to the power
  -1074, the spacing of the subnormal numbers. \<open>ulp_up\<close> finds it for a magnitude of at
  least 1 by halving, \<open>ulp_down\<close> for a smaller one by at most 1022 doublings. \<open>rne\<close> is
  the nearest integer, the even one at a tie. \<open>round64 x\<close> is the multiple of the spacing
  nearest to \<open>x\<close>, and an infinity when that multiple is 2 to the power 1024 or beyond.
\<close>

definition rne :: "real \<Rightarrow> int" where
  "rne q =
     (let f = \<lfloor>q\<rfloor>; d = q - of_int f
      in if d < 1 / 2 then f else if 1 / 2 < d then f + 1 else if even f then f else f + 1)"

function ulp_up :: "real \<Rightarrow> real \<Rightarrow> real" where
  "ulp_up x u = (if 2 \<le> x then ulp_up (x / 2) (2 * u) else u)"
  by pat_completeness auto
termination
proof (relation "measure (\<lambda>(x, u). nat \<lceil>x\<rceil>)")
  show "wf (measure (\<lambda>(x, u). nat \<lceil>x\<rceil>))"
    by simp
next
  fix x u :: real
  assume a: "2 \<le> x"
  have "x \<le> of_int \<lceil>x\<rceil>"
    by (rule le_of_int_ceiling)
  with a have "x / 2 \<le> of_int \<lceil>x\<rceil> - 1"
    by linarith
  then have "x / 2 \<le> of_int (\<lceil>x\<rceil> - 1)"
    by simp
  then have "\<lceil>x / 2\<rceil> \<le> \<lceil>x\<rceil> - 1"
    by (rule ceiling_le)
  moreover from a have "0 < \<lceil>x\<rceil>"
    by simp
  ultimately show "((x / 2, 2 * u), (x, u)) \<in> measure (\<lambda>(x, u). nat \<lceil>x\<rceil>)"
    by simp
qed

declare ulp_up.simps [simp del]

fun ulp_down :: "nat \<Rightarrow> real \<Rightarrow> real \<Rightarrow> real" where
  "ulp_down 0 x u = u"
| "ulp_down (Suc n) x u = (if x < 1 then ulp_down n (2 * x) (u / 2) else u)"

definition ulp64 :: "real \<Rightarrow> real" where
  "ulp64 x =
     (if 1 \<le> \<bar>x\<bar> then ulp_up \<bar>x\<bar> (1 / 2 ^ 52) else ulp_down 1022 \<bar>x\<bar> (1 / 2 ^ 52))"

definition round64 :: "real \<Rightarrow> number" where
  "round64 x =
     (let u = ulp64 x; y = of_int (rne (x / u)) * u
      in if 2 ^ 1024 \<le> \<bar>y\<bar> then (if 0 < x then Infinity else NegInfinity) else Finite y)"

fun round_num :: "number \<Rightarrow> number" where
  "round_num (Finite x) = round64 x"
| "round_num n = n"

text \<open>\<^verbatim>\<open>a + b\<close> and \<^verbatim>\<open>a * b\<close> as the program computes them: the exact result, rounded.\<close>

definition add64 :: "number \<Rightarrow> number \<Rightarrow> number" where
  "add64 a b = round_num (num_add a b)"

definition mul64 :: "number \<Rightarrow> number \<Rightarrow> number" where
  "mul64 a b = round_num (num_mul a b)"

text \<open>
  \<^verbatim>\<open>x ?? d\<close>: the default exactly when \<^verbatim>\<open>x\<close> is \<^verbatim>\<open>null\<close> or \<^verbatim>\<open>undefined\<close>.
  Both are \<^const>\<open>None\<close> in the model; \<^verbatim>\<open>x == null\<close> is true for exactly the same
  values.
\<close>

fun nullish :: "'a option \<Rightarrow> 'a \<Rightarrow> 'a" where
  "nullish None d = d"
| "nullish (Some x) d = x"

text \<open>Truthiness of an optional number, as in \<^verbatim>\<open>next ? a : b\<close>.\<close>

fun truthy :: "number option \<Rightarrow> bool" where
  "truthy None = False"
| "truthy (Some NaN) = False"
| "truthy (Some (Finite a)) = (a \<noteq> 0)"
| "truthy (Some n) = True"

section \<open>The feed's data (\<^verbatim>\<open>App.tsx\<close>, lines 4 to 22)\<close>

record properties =
  mag :: "number option"
  place :: "string option"
  time :: number
  url :: string

record geometry =
  geometry_type :: string
  coordinates :: "number \<times> number \<times> number"

record EarthquakeFeature =
  feature_id :: string
  properties :: properties
  geometry :: geometry

section \<open>Magnitude to colour (\<^verbatim>\<open>magToColor\<close>, \<^verbatim>\<open>App.tsx\<close>, lines 122 to 130)\<close>

definition magToColor :: "number option \<Rightarrow> string" where
  "magToColor m =
     (case m of
        None \<Rightarrow> ''#9aa0a6''
      | Some x \<Rightarrow>
          if num_ge x (Finite 7) then ''#7f0000''
          else if num_ge x (Finite 6) then ''#b30000''
          else if num_ge x (Finite 5) then ''#d7301f''
          else if num_ge x (Finite 4) then ''#ef6548''
          else if num_ge x (Finite 2) then ''#fc8d59''
          else ''#fdbb84'')"

section \<open>The filter stage (\<^verbatim>\<open>filtered\<close>, \<^verbatim>\<open>App.tsx\<close>, lines 56 to 58)\<close>

text \<open>
  \<^verbatim>\<open>Array.prototype.filter\<close>: visits the elements in index order and appends to the
  result those the callback accepts.
\<close>

fun array_filter :: "('a \<Rightarrow> bool) \<Rightarrow> 'a list \<Rightarrow> 'a list \<Rightarrow> 'a list" where
  "array_filter p [] kept = kept"
| "array_filter p (x # xs) kept = array_filter p xs (if p x then kept @ [x] else kept)"

definition filtered :: "EarthquakeFeature list \<Rightarrow> number \<Rightarrow> EarthquakeFeature list" where
  "filtered fs minMag =
     array_filter (\<lambda>f. num_ge (nullish (mag (properties f)) NegInfinity) minMag) fs []"

section \<open>Markers (\<^verbatim>\<open>MapView.tsx\<close>, lines 27 to 38)\<close>

record CircleMarker =
  marker_key :: string
  center :: "number \<times> number"
  marker_radius :: number
  pathColor :: string
  fillColor :: string

text \<open>
  \<^verbatim>\<open>Math.max(3, (mag ?? 0) * 2 + 3)\<close>, line 31. The product is rounded, then the sum. A
  magnitude of the feed is a double, that is a value \<open>round64\<close> leaves as it is; the
  definition takes any finite value.
\<close>

definition radius :: "number option \<Rightarrow> number" where
  "radius m = math_max (Finite 3) (add64 (mul64 (nullish m (Finite 0)) (Finite 2)) (Finite 3))"

definition marker :: "EarthquakeFeature \<Rightarrow> CircleMarker" where
  "marker f =
     (case coordinates (geometry f) of
        (lon, lat, depth) \<Rightarrow>
          \<lparr>marker_key = feature_id f,
           center = (lat, lon),
           marker_radius = radius (mag (properties f)),
           pathColor = magToColor (mag (properties f)),
           fillColor = magToColor (mag (properties f))\<rparr>)"

definition MapView :: "EarthquakeFeature list \<Rightarrow> CircleMarker list" where
  "MapView fs = map marker fs"

section \<open>The legend (\<^verbatim>\<open>MagnitudeLegend\<close>, \<^verbatim>\<open>App.tsx\<close>, lines 101 to 120)\<close>

text \<open>
  The legend only compares \<^verbatim>\<open>m + 0.01\<close> with the band limits, so the sum is taken exactly:
  rounding it, and the literal \<^verbatim>\<open>0.01\<close>, to binary64 moves it by less than 2 to the power
  -49 and leaves every comparison as it is (lemma \<open>legend_swatch_rounded\<close>).
\<close>

definition stops :: "number list" where
  "stops = [Finite 0, Finite 2, Finite 4, Finite 5, Finite 6, Finite 7]"

text \<open>\<^verbatim>\<open>xs[i]\<close>: \<^verbatim>\<open>undefined\<close> past the end of the array.\<close>

definition nth_opt :: "'a list \<Rightarrow> nat \<Rightarrow> 'a option" where
  "nth_opt xs i = (if i < length xs then Some (xs ! i) else None)"

text \<open>
  The two shapes of the label template: \<^verbatim>\<open>`${m}-${next}`\<close> (with an en dash) is
  \<open>Range m next\<close>, and \<^verbatim>\<open>`${m}+`\<close> is \<open>From m\<close>.
\<close>

datatype legend_label = Range number number | From number

record legend_row =
  row_key :: number
  swatch :: string
  row_label :: legend_label

definition legend_row_of :: "number \<Rightarrow> nat \<Rightarrow> legend_row" where
  "legend_row_of m idx =
     (let next = nth_opt stops (idx + 1)
      in \<lparr>row_key = m,
          swatch = magToColor (Some (num_add m (Finite 0.01))),
          row_label = (case next of
                         None \<Rightarrow> From m
                       | Some n \<Rightarrow> if truthy next then Range m n else From m)\<rparr>)"

definition MagnitudeLegend :: "legend_row list" where
  "MagnitudeLegend = map (\<lambda>(m, idx). legend_row_of m idx) (zip stops [0..<length stops])"

text \<open>\<^verbatim>\<open>a < b\<close>, and the magnitudes a label stands for.\<close>

fun num_lt :: "number \<Rightarrow> number \<Rightarrow> bool" where
  "num_lt NaN b = False"
| "num_lt a NaN = False"
| "num_lt a NegInfinity = False"
| "num_lt Infinity b = False"
| "num_lt NegInfinity b = True"
| "num_lt (Finite a) Infinity = True"
| "num_lt (Finite a) (Finite b) = (a < b)"

fun in_band :: "legend_label \<Rightarrow> number \<Rightarrow> bool" where
  "in_band (Range lo hi) m = (num_ge m lo \<and> num_lt m hi)"
| "in_band (From lo) m = num_ge m lo"

section \<open>The controller (\<^verbatim>\<open>App\<close>, \<^verbatim>\<open>App.tsx\<close>, lines 26 to 58 and 73)\<close>

text \<open>The five \<^verbatim>\<open>useState\<close> cells and their initial values.\<close>

record app_state =
  features :: "EarthquakeFeature list"
  minMag :: number
  loading :: bool
  error :: "string option"
  lastUpdated :: "number option"

definition initial_state :: app_state where
  "initial_state =
     \<lparr>features = [], minMag = Finite 0, loading = True, error = None, lastUpdated = None\<rparr>"

text \<open>
  What a handler does, in program order: calls of the state setters, the request to the
  feed, and the timer calls.
\<close>

datatype effect =
    SetFeatures "EarthquakeFeature list"
  | SetMinMag number
  | SetLoading bool
  | SetError "string option"
  | SetLastUpdated "number option"
  | Fetch string string
  | SetInterval nat
  | ClearInterval

fun apply_effect :: "effect \<Rightarrow> app_state \<Rightarrow> app_state" where
  "apply_effect (SetFeatures fs) s = s\<lparr>features := fs\<rparr>"
| "apply_effect (SetMinMag m) s = s\<lparr>minMag := m\<rparr>"
| "apply_effect (SetLoading b) s = s\<lparr>loading := b\<rparr>"
| "apply_effect (SetError e) s = s\<lparr>error := e\<rparr>"
| "apply_effect (SetLastUpdated t) s = s\<lparr>lastUpdated := t\<rparr>"
| "apply_effect (Fetch u c) s = s"
| "apply_effect (SetInterval ms) s = s"
| "apply_effect ClearInterval s = s"

definition run :: "effect list \<Rightarrow> app_state \<Rightarrow> app_state" where
  "run effs s = fold apply_effect effs s"

definition is_fetch :: "effect \<Rightarrow> bool" where
  "is_fetch e = (case e of Fetch u c \<Rightarrow> True | _ \<Rightarrow> False)"

text \<open>
  A thrown value is an \<^verbatim>\<open>Error\<close> instance with its message, or something else. The
  response carries its status and what \<^verbatim>\<open>res.json()\<close> settles to; \<^verbatim>\<open>res.ok\<close> is, by the
  Fetch standard, a status from 200 to 299. The parsed body follows the declared type
  \<^verbatim>\<open>EarthquakeResponse\<close>, with the properties the code guards (\<^verbatim>\<open>||\<close>, \<^verbatim>\<open>?.\<close>, \<^verbatim>\<open>??\<close>)
  optional, and may be \<^verbatim>\<open>null\<close>, on which reading a property throws. A parsed value
  that is neither \<^verbatim>\<open>null\<close> nor an object (a number, a string) has neither property, and
  reads as the object without them.
\<close>

datatype thrown = ErrorInstance string | OtherValue

record metadata =
  generated :: "number option"

record EarthquakeResponse =
  json_metadata :: "metadata option"
  json_features :: "EarthquakeFeature list option"

datatype json_body = JsonNull | JsonObject EarthquakeResponse

datatype json_result = JsonRejected thrown | JsonResolved json_body

record Response =
  status :: nat
  json :: json_result

datatype fetch_result = FetchRejected thrown | FetchResolved Response

definition ok :: "Response \<Rightarrow> bool" where
  "ok res = (200 \<le> status res \<and> status res \<le> 299)"

text \<open>
  What the page takes from its host: the clock, the message of the \<^verbatim>\<open>TypeError\<close> raised
  when a property of \<^verbatim>\<open>null\<close> is read, and \<^verbatim>\<open>parseFloat\<close>.
\<close>

record runtime =
  date_now :: number
  null_property_message :: string
  parseFloat :: "string \<Rightarrow> number"

definition FEED_URL :: string where
  "FEED_URL = ''https://earthquake.usgs.gov/earthquakes/feed/v1.0/summary/all_day.geojson''"

text \<open>Decimal digits of a status code, for the template \<^verbatim>\<open>`HTTP ${res.status}`\<close>.\<close>

fun string_of_nat :: "nat \<Rightarrow> string" where
  "string_of_nat n =
     (if n < 10 then [''0123456789'' ! n]
      else string_of_nat (n div 10) @ [''0123456789'' ! (n mod 10)])"

declare string_of_nat.simps [simp del]

text \<open>\<^verbatim>\<open>xs || d\<close> on an optional array: an array, even an empty one, is truthy.\<close>

fun or_array :: "'a list option \<Rightarrow> 'a list \<Rightarrow> 'a list" where
  "or_array None d = d"
| "or_array (Some xs) d = xs"

text \<open>
  The body of the \<^verbatim>\<open>try\<close> block once the request has settled: the setter calls made,
  and the value thrown, if any.
\<close>

definition try_block :: "runtime \<Rightarrow> fetch_result \<Rightarrow> effect list \<times> thrown option" where
  "try_block rt r =
     (case r of
        FetchRejected e \<Rightarrow> ([], Some e)
      | FetchResolved res \<Rightarrow>
          if \<not> ok res then ([], Some (ErrorInstance (''HTTP '' @ string_of_nat (status res))))
          else (case json res of
                  JsonRejected e \<Rightarrow> ([], Some e)
                | JsonResolved JsonNull \<Rightarrow> ([], Some (ErrorInstance (null_property_message rt)))
                | JsonResolved (JsonObject j) \<Rightarrow>
                    ([SetFeatures (or_array (json_features j) []),
                      SetLastUpdated
                        (Some (nullish (Option.bind (json_metadata j) generated) (date_now rt)))],
                     None)))"

definition catch_message :: "thrown \<Rightarrow> string" where
  "catch_message e = (case e of ErrorInstance m \<Rightarrow> m | OtherValue \<Rightarrow> ''Unknown error'')"

text \<open>
  \<^verbatim>\<open>loadData\<close> in its two parts: up to the request, and from the moment the request has
  settled (\<^verbatim>\<open>try\<close>, \<^verbatim>\<open>catch\<close>, \<^verbatim>\<open>finally\<close>).
\<close>

definition loadData_begin :: "effect list" where
  "loadData_begin = [SetLoading True, SetError None, Fetch FEED_URL ''no-store'']"

definition loadData_settle :: "runtime \<Rightarrow> fetch_result \<Rightarrow> effect list" where
  "loadData_settle rt r =
     (case try_block rt r of
        (effs, t) \<Rightarrow>
          effs
          @ (case t of None \<Rightarrow> [] | Some e \<Rightarrow> [SetError (Some (catch_message e))])
          @ [SetLoading False])"

definition loadData :: "runtime \<Rightarrow> fetch_result \<Rightarrow> effect list" where
  "loadData rt r = loadData_begin @ loadData_settle rt r"

text \<open>
  What starts a handler: the mount effect (line 50), a tick of the interval it installs,
  the retry button (line 84), the slider (line 73) with the string of its input, and the
  cleanup of the mount effect.
\<close>

datatype trigger = Mount | IntervalTick | RetryClick | MinMagChange string | Unmount

fun handler :: "runtime \<Rightarrow> trigger \<Rightarrow> effect list" where
  "handler rt Mount = loadData_begin @ [SetInterval (5 * 60 * 1000)]"
| "handler rt IntervalTick = loadData_begin"
| "handler rt RetryClick = loadData_begin"
| "handler rt (MinMagChange v) = [SetMinMag (parseFloat rt v)]"
| "handler rt Unmount = [ClearInterval]"

text \<open>The calls a handler makes before it issues the request.\<close>

definition until_fetch :: "effect list \<Rightarrow> effect list" where
  "until_fetch effs = takeWhile (\<lambda>e. \<not> is_fetch e) effs"

section \<open>The error taxonomy of the specification\<close>

text \<open>
  The code has no error kinds: a failure reaches the state as a message only. The kinds
  below are the specification's, read off the settled request. \<open>spec_fetch_error\<close>
  follows its words: no response is a network error, a non-success status an HTTP error,
  a body that is malformed or lacks a required field a parse error. The required field
  taken here is \<^verbatim>\<open>metadata.generated\<close>; the feature list is left out, since the
  specification lets a missing list decode to the empty sequence.
\<close>

datatype feed_error = NetworkError | HttpError nat | ParseError

definition missing_generated :: "EarthquakeResponse \<Rightarrow> bool" where
  "missing_generated j = (Option.bind (json_metadata j) generated = None)"

definition spec_fetch_error :: "fetch_result \<Rightarrow> feed_error option" where
  "spec_fetch_error r =
     (case r of
        FetchRejected e \<Rightarrow> Some NetworkError
      | FetchResolved res \<Rightarrow>
          if \<not> ok res then Some (HttpError (status res))
          else (case json res of
                  JsonRejected e \<Rightarrow> Some ParseError
                | JsonResolved JsonNull \<Rightarrow> Some ParseError
                | JsonResolved (JsonObject j) \<Rightarrow>
                    if missing_generated j then Some ParseError else None))"

text \<open>
  \<open>fetch_error\<close> is the same reading without the required field: a parse error is a
  body that is not JSON, or is \<^verbatim>\<open>null\<close>.
\<close>

definition fetch_error :: "fetch_result \<Rightarrow> feed_error option" where
  "fetch_error r =
     (case r of
        FetchRejected e \<Rightarrow> Some NetworkError
      | FetchResolved res \<Rightarrow>
          if \<not> ok res then Some (HttpError (status res))
          else (case json res of
                  JsonRejected e \<Rightarrow> Some ParseError
                | JsonResolved JsonNull \<Rightarrow> Some ParseError
                | JsonResolved (JsonObject j) \<Rightarrow> None))"

section \<open>Sample data\<close>

text \<open>
  Three events with magnitudes 5.2, \<^verbatim>\<open>null\<close> and 1.9, a fourth with magnitude 0, a host
  whose clock reads 1700000000000, and a state holding two of the events after a failed
  load.
\<close>

definition quake :: "string \<Rightarrow> number option \<Rightarrow> EarthquakeFeature" where
  "quake i m =
     \<lparr>feature_id = i,
      properties = \<lparr>mag = m, place = None, time = Finite 0, url = []\<rparr>,
      geometry = \<lparr>geometry_type = ''Point'', coordinates = (Finite 0, Finite 0, Finite 0)\<rparr>\<rparr>"

definition quake_a :: EarthquakeFeature where
  "quake_a = quake ''a'' (Some (Finite 5.2))"

definition quake_b :: EarthquakeFeature where
  "quake_b = quake ''b'' None"

definition quake_c :: EarthquakeFeature where
  "quake_c = quake ''c'' (Some (Finite 1.9))"

definition quake_z :: EarthquakeFeature where
  "quake_z = quake ''z'' (Some (Finite 0))"

definition sample_runtime :: runtime where
  "sample_runtime =
     \<lparr>date_now = Finite 1700000000000,
      null_property_message = ''Cannot read properties of null'',
      parseFloat = (\<lambda>v. if v = ''2.5'' then Finite 2.5 else NaN)\<rparr>"

definition stale_state :: app_state where
  "stale_state =
     \<lparr>features = [quake_a, quake_b], minMag = Finite 1, loading = False,
      error = Some ''HTTP 503'', lastUpdated = Some (Finite 1600000000000)\<rparr>"

section \<open>Properties of the filter stage\<close>

lemma array_filter_acc: "array_filter p xs kept = kept @ filter p xs"
  by (induction xs arbitrary: kept) simp_all

lemma filtered_filter:
  "filtered fs t = filter (\<lambda>f. num_ge (nullish (mag (properties f)) NegInfinity) t) fs"
  by (simp add: filtered_def array_filter_acc)

text \<open>
  C1. For every event list and every threshold, \<open>filtered\<close> is exactly the events whose
  magnitude, with \<^verbatim>\<open>-Infinity\<close> standing for an absent one, is at least the threshold, in
  their original order. At threshold 0 an event without magnitude is dropped and an event
  of magnitude 0 is kept.
\<close>

theorem filtered_exact:
  "filtered fs t = filter (\<lambda>f. num_ge (nullish (mag (properties f)) NegInfinity) t) fs
   \<and> subseq (filtered fs t) fs
   \<and> (mag (properties f) = None \<longrightarrow> f \<notin> set (filtered fs (Finite 0)))
   \<and> (g \<in> set fs \<and> mag (properties g) = Some (Finite 0) \<longrightarrow> g \<in> set (filtered fs (Finite 0)))"
  by (simp add: filtered_filter)

theorem filtered_exact_witness:
  "mag (properties quake_b) = None
   \<and> quake_b \<notin> set (filtered [quake_a, quake_b, quake_z] (Finite 0))
   \<and> quake_z \<in> set [quake_a, quake_b, quake_z]
   \<and> mag (properties quake_z) = Some (Finite 0)
   \<and> quake_z \<in> set (filtered [quake_a, quake_b, quake_z] (Finite 0))
   \<and> filtered [quake_a, quake_b, quake_c] (Finite 2) = [quake_a]"
proof -
  have b: "mag (properties quake_b) = None"
    by (simp add: quake_b_def quake_def)
  have z: "quake_z \<in> set [quake_a, quake_b, quake_z] \<and> mag (properties quake_z) = Some (Finite 0)"
    by (simp add: quake_z_def quake_def)
  have scenario: "filtered [quake_a, quake_b, quake_c] (Finite 2) = [quake_a]"
    by (simp add: filtered_def quake_a_def quake_b_def quake_c_def quake_def)
  from b z scenario filtered_exact [of "[quake_a, quake_b, quake_z]" "Finite 0" quake_b quake_z]
  show ?thesis by blast
qed

section \<open>Properties of the colour bands\<close>

text \<open>
  C2. An absent magnitude is gray. A real magnitude of at least 7 is deep red, from 6 up
  to 7 red, from 5 up to 6 red-orange, from 4 up to 5 orange, from 2 up to 4 light orange,
  and below 2, negative values included, pale orange. The lower bound of each band belongs
  to the band: magnitude 5 is red-orange.
\<close>

theorem magToColor_bands:
  "magToColor None = ''#9aa0a6''
   \<and> (\<forall>r\<in>{7..}. magToColor (Some (Finite r)) = ''#7f0000'')
   \<and> (\<forall>r\<in>{6..<7}. magToColor (Some (Finite r)) = ''#b30000'')
   \<and> (\<forall>r\<in>{5..<6}. magToColor (Some (Finite r)) = ''#d7301f'')
   \<and> (\<forall>r\<in>{4..<5}. magToColor (Some (Finite r)) = ''#ef6548'')
   \<and> (\<forall>r\<in>{2..<4}. magToColor (Some (Finite r)) = ''#fc8d59'')
   \<and> (\<forall>r\<in>{..<2}. magToColor (Some (Finite r)) = ''#fdbb84'')
   \<and> magToColor (Some (Finite 5)) = ''#d7301f''"
  by (simp add: magToColor_def)

theorem magToColor_bands_witness:
  "(7.3::real) \<in> {7..} \<and> magToColor (Some (Finite 7.3)) = ''#7f0000''
   \<and> (6::real) \<in> {6..<7} \<and> magToColor (Some (Finite 6)) = ''#b30000''
   \<and> (5::real) \<in> {5..<6} \<and> magToColor (Some (Finite 5)) = ''#d7301f''
   \<and> (4.9::real) \<in> {4..<5} \<and> magToColor (Some (Finite 4.9)) = ''#ef6548''
   \<and> (2::real) \<in> {2..<4} \<and> magToColor (Some (Finite 2)) = ''#fc8d59''
   \<and> (- 1::real) \<in> {..<2} \<and> magToColor (Some (Finite (- 1))) = ''#fdbb84''"
proof -
  have m: "(7.3::real) \<in> {7..}" "(6::real) \<in> {6..<7}" "(5::real) \<in> {5..<6}"
    "(4.9::real) \<in> {4..<5}" "(2::real) \<in> {2..<4}" "(- 1::real) \<in> {..<2}"
    by simp_all
  from m magToColor_bands show ?thesis by blast
qed

section \<open>Properties of the marker radius\<close>

subsection \<open>Rounding to binary64\<close>

lemma rne_error: "\<bar>of_int (rne q) - q\<bar> \<le> 1 / 2"
  unfolding rne_def Let_def by (auto; linarith)

lemma rne_of_int: "rne (of_int k) = k"
  by (simp add: rne_def)

lemma rne_ge: "of_int k \<le> q \<Longrightarrow> k \<le> rne q"
proof -
  assume "of_int k \<le> q"
  then have "k \<le> \<lfloor>q\<rfloor>"
    by (simp add: le_floor_iff)
  then show ?thesis
    by (auto simp: rne_def Let_def)
qed

lemma rne_le: "q \<le> of_int k \<Longrightarrow> rne q \<le> k"
proof -
  assume a: "q \<le> of_int k"
  show ?thesis
  proof (cases "q = of_int k")
    case True
    then show ?thesis by (simp add: rne_of_int)
  next
    case False
    with a have "q < of_int k" by simp
    then have "\<lfloor>q\<rfloor> < k"
      by (simp add: floor_less_iff)
    then show ?thesis
      by (auto simp: rne_def Let_def)
  qed
qed

lemma ulp_up_spec:
  "1 \<le> x \<Longrightarrow> \<exists>k::nat. ulp_up x u = u * 2 ^ k \<and> 2 ^ k \<le> x \<and> x < 2 ^ (k + 1)"
proof (induction x u rule: ulp_up.induct)
  case (1 x u)
  show ?case
  proof (cases "2 \<le> x")
    case True
    then have "1 \<le> x / 2" by simp
    from "1.IH" [OF True this] obtain k :: nat where
      k: "ulp_up (x / 2) (2 * u) = 2 * u * 2 ^ k" "2 ^ k \<le> x / 2" "x / 2 < 2 ^ (k + 1)"
      by blast
    have "ulp_up x u = u * 2 ^ (Suc k) \<and> 2 ^ (Suc k) \<le> x \<and> x < 2 ^ (Suc k + 1)"
      using k True by (subst ulp_up.simps) simp
    then show ?thesis by blast
  next
    case False
    with "1.prems" have "ulp_up x u = u * 2 ^ 0 \<and> 2 ^ 0 \<le> x \<and> x < 2 ^ (0 + 1)"
      by (subst ulp_up.simps) simp
    then show ?thesis by blast
  qed
qed

lemma ulp_down_spec:
  "x < 2 \<Longrightarrow>
   \<exists>k\<le>n. ulp_down n x u = u / 2 ^ k \<and> x * 2 ^ k < 2 \<and> (1 \<le> x * 2 ^ k \<or> k = n)"
proof (induction n arbitrary: x u)
  case 0
  then show ?case by simp
next
  case (Suc n)
  show ?case
  proof (cases "x < 1")
    case True
    then have "2 * x < 2" by simp
    from Suc.IH [OF this, of "u / 2"] obtain k where
      k: "k \<le> n" "ulp_down n (2 * x) (u / 2) = u / 2 / 2 ^ k" "2 * x * 2 ^ k < 2"
        "1 \<le> 2 * x * 2 ^ k \<or> k = n"
      by blast
    have "Suc k \<le> Suc n \<and> ulp_down (Suc n) x u = u / 2 ^ Suc k \<and> x * 2 ^ Suc k < 2
        \<and> (1 \<le> x * 2 ^ Suc k \<or> Suc k = Suc n)"
      using k True by (auto simp: mult.assoc)
    then show ?thesis by blast
  next
    case False
    with Suc.prems have "0 \<le> Suc n \<and> ulp_down (Suc n) x u = u / 2 ^ 0 \<and> x * 2 ^ 0 < 2
        \<and> (1 \<le> x * 2 ^ 0 \<or> 0 = Suc n)"
      by simp
    then show ?thesis by blast
  qed
qed


lemma ulp64_big:
  assumes "1 \<le> \<bar>x\<bar>"
  obtains k :: nat where "ulp64 x = 2 ^ k / 2 ^ 52" and "2 ^ k \<le> \<bar>x\<bar>" and "\<bar>x\<bar> < 2 ^ (k + 1)"
proof -
  from ulp_up_spec [OF assms, of "1 / 2 ^ 52"] obtain k :: nat where
    "ulp_up \<bar>x\<bar> (1 / 2 ^ 52) = 1 / 2 ^ 52 * 2 ^ k" "2 ^ k \<le> \<bar>x\<bar>" "\<bar>x\<bar> < 2 ^ (k + 1)"
    by blast
  with assms have "ulp64 x = 2 ^ k / 2 ^ 52" "2 ^ k \<le> \<bar>x\<bar>" "\<bar>x\<bar> < 2 ^ (k + 1)"
    by (simp_all add: ulp64_def)
  then show ?thesis by (rule that)
qed

lemma ulp64_little:
  assumes "\<bar>x\<bar> < 1"
  obtains k :: nat where "k \<le> 1022" and "ulp64 x = 1 / 2 ^ 52 / 2 ^ k" and "\<bar>x\<bar> * 2 ^ k < 2"
    and "1 \<le> \<bar>x\<bar> * 2 ^ k \<or> k = 1022"
proof -
  from assms have "\<bar>x\<bar> < 2" by simp
  from ulp_down_spec [OF this, of 1022 "1 / 2 ^ 52"] obtain k where
    "k \<le> 1022" "ulp_down 1022 \<bar>x\<bar> (1 / 2 ^ 52) = 1 / 2 ^ 52 / 2 ^ k" "\<bar>x\<bar> * 2 ^ k < 2"
    "1 \<le> \<bar>x\<bar> * 2 ^ k \<or> k = 1022"
    by blast
  with assms have "k \<le> 1022" "ulp64 x = 1 / 2 ^ 52 / 2 ^ k" "\<bar>x\<bar> * 2 ^ k < 2"
    "1 \<le> \<bar>x\<bar> * 2 ^ k \<or> k = 1022"
    by (simp_all add: ulp64_def)
  then show ?thesis by (rule that)
qed

lemma ulp64_pos: "0 < ulp64 x"
proof (cases "1 \<le> \<bar>x\<bar>")
  case True
  then obtain k :: nat where a: "ulp64 x = 2 ^ k / 2 ^ 52"
    by (rule ulp64_big)
  show ?thesis unfolding a by simp
next
  case False
  then have "\<bar>x\<bar> < 1" by simp
  then obtain k :: nat where a: "ulp64 x = 1 / 2 ^ 52 / 2 ^ k"
    by (rule ulp64_little)
  show ?thesis unfolding a by simp
qed

lemma ulp64_upper: "\<bar>x\<bar> < ulp64 x * 2 ^ 53"
proof (cases "1 \<le> \<bar>x\<bar>")
  case True
  then obtain k :: nat where a: "ulp64 x = 2 ^ k / 2 ^ 52" and b: "\<bar>x\<bar> < 2 ^ (k + 1)"
    by (rule ulp64_big)
  from b show ?thesis unfolding a by simp
next
  case False
  then have "\<bar>x\<bar> < 1" by simp
  then obtain k :: nat where a: "ulp64 x = 1 / 2 ^ 52 / 2 ^ k" and b: "\<bar>x\<bar> * 2 ^ k < 2"
    by (rule ulp64_little)
  have "\<bar>x\<bar> < 2 / 2 ^ k"
    using b by (simp add: pos_less_divide_eq)
  then show ?thesis unfolding a by simp
qed

lemma ulp64_lower:
  assumes "1 / 2 ^ 1022 \<le> \<bar>x\<bar>"
  shows "ulp64 x * 2 ^ 52 \<le> \<bar>x\<bar>"
proof (cases "1 \<le> \<bar>x\<bar>")
  case True
  then obtain k :: nat where a: "ulp64 x = 2 ^ k / 2 ^ 52" and b: "2 ^ k \<le> \<bar>x\<bar>"
    by (rule ulp64_big)
  from b show ?thesis unfolding a by simp
next
  case False
  then have "\<bar>x\<bar> < 1" by simp
  then obtain k :: nat where a: "ulp64 x = 1 / 2 ^ 52 / 2 ^ k"
    and b: "1 \<le> \<bar>x\<bar> * 2 ^ k \<or> k = 1022"
    by (rule ulp64_little)
  from assms have "1 \<le> \<bar>x\<bar> * 2 ^ 1022"
    by (simp add: pos_divide_le_eq)
  with b have "1 \<le> \<bar>x\<bar> * 2 ^ k"
    by blast
  then have "1 / 2 ^ k \<le> \<bar>x\<bar>"
    by (simp add: pos_divide_le_eq)
  then show ?thesis unfolding a by simp
qed

lemma ulp64_min: "1 / 2 ^ 1074 \<le> ulp64 x"
proof (cases "1 \<le> \<bar>x\<bar>")
  case True
  then obtain k :: nat where a: "ulp64 x = 2 ^ k / 2 ^ 52"
    by (rule ulp64_big)
  have "(1::real) \<le> 2 ^ k"
    by simp
  then have "(1::real) / 2 ^ 52 \<le> 2 ^ k / 2 ^ 52"
    by (simp add: divide_right_mono)
  moreover have "(1::real) / 2 ^ 1074 \<le> 1 / 2 ^ 52"
    by simp
  ultimately show ?thesis
    unfolding a by linarith
next
  case False
  then have "\<bar>x\<bar> < 1" by simp
  then obtain k :: nat where a: "k \<le> 1022" "ulp64 x = 1 / 2 ^ 52 / 2 ^ k"
    by (rule ulp64_little)
  from a(1) have "(2::real) ^ k \<le> 2 ^ 1022"
    by (intro power_increasing) simp_all
  then have "(1::real) / 2 ^ 52 / 2 ^ 1022 \<le> 1 / 2 ^ 52 / 2 ^ k"
    by (intro divide_left_mono) simp_all
  moreover have "(1::real) / 2 ^ 52 / 2 ^ 1022 = 1 / 2 ^ 1074"
    by simp
  ultimately show ?thesis
    unfolding a(2) by simp
qed

lemma ulp64_pow2: "\<exists>j::nat. ulp64 x = 2 ^ j / 2 ^ 1074"
proof (cases "1 \<le> \<bar>x\<bar>")
  case True
  then obtain k :: nat where a: "ulp64 x = 2 ^ k / 2 ^ 52"
    by (rule ulp64_big)
  have "(2::real) ^ (k + 1022) / 2 ^ 1074 = 2 ^ k * (2 ^ 1022 / 2 ^ 1074)"
    by (simp only: power_add times_divide_eq_right)
  also have "\<dots> = 2 ^ k / 2 ^ 52"
    by simp
  finally show ?thesis
    using a by metis
next
  case False
  then have "\<bar>x\<bar> < 1" by simp
  then obtain k :: nat where a: "k \<le> 1022" "ulp64 x = 1 / 2 ^ 52 / 2 ^ k"
    by (rule ulp64_little)
  have "(2::real) ^ (1022 - k) * 2 ^ k = 2 ^ 1022"
    using a(1) by (simp only: power_add [symmetric]) simp
  then have "(2::real) ^ (1022 - k) = 2 ^ 1022 / 2 ^ k"
    by (simp add: nonzero_eq_divide_eq)
  then have "(2::real) ^ (1022 - k) / 2 ^ 1074 = (2 ^ 1022 / 2 ^ 1074) / 2 ^ k"
    by simp
  also have "\<dots> = 1 / 2 ^ 52 / 2 ^ k"
    by simp
  finally show ?thesis
    using a(2) by metis
qed


lemma ulp64_le: "ulp64 x \<le> max (\<bar>x\<bar> / 2 ^ 52) (1 / 2 ^ 1074)"
proof (cases "1 \<le> \<bar>x\<bar>")
  case True
  then obtain k :: nat where a: "ulp64 x = 2 ^ k / 2 ^ 52" and b: "2 ^ k \<le> \<bar>x\<bar>"
    by (rule ulp64_big)
  from b have "2 ^ k / 2 ^ 52 \<le> \<bar>x\<bar> / 2 ^ 52"
    by (simp add: divide_right_mono)
  then show ?thesis unfolding a by simp
next
  case False
  then have "\<bar>x\<bar> < 1" by simp
  then obtain k :: nat where a: "ulp64 x = 1 / 2 ^ 52 / 2 ^ k"
    and b: "1 \<le> \<bar>x\<bar> * 2 ^ k \<or> k = 1022"
    by (rule ulp64_little)
  from b show ?thesis
  proof
    assume "1 \<le> \<bar>x\<bar> * 2 ^ k"
    then have "1 / 2 ^ k \<le> \<bar>x\<bar>"
      by (simp add: pos_divide_le_eq)
    then have "1 / 2 ^ k / 2 ^ 52 \<le> \<bar>x\<bar> / 2 ^ 52"
      by (simp add: divide_right_mono)
    then show ?thesis unfolding a by (simp add: mult.commute)
  next
    assume "k = 1022"
    then show ?thesis unfolding a by simp
  qed
qed

lemma round64_not_NaN: "round64 x \<noteq> NaN"
  by (simp add: round64_def Let_def)

lemma round64_value:
  assumes "round64 x = Finite y"
  shows "y = of_int (rne (x / ulp64 x)) * ulp64 x"
  using assms by (simp add: round64_def Let_def split: if_splits)

lemma rounded_error: "\<bar>of_int (rne (x / ulp64 x)) * ulp64 x - x\<bar> \<le> ulp64 x / 2"
proof -
  let ?u = "ulp64 x"
  have u: "0 < ?u" by (rule ulp64_pos)
  have "\<bar>of_int (rne (x / ?u)) - x / ?u\<bar> * ?u \<le> 1 / 2 * ?u"
    using rne_error [of "x / ?u"] u by (intro mult_right_mono) simp_all
  moreover have "\<bar>of_int (rne (x / ?u)) - x / ?u\<bar> * ?u = \<bar>of_int (rne (x / ?u)) * ?u - x\<bar>"
  proof -
    have "\<bar>of_int (rne (x / ?u)) - x / ?u\<bar> * ?u = \<bar>(of_int (rne (x / ?u)) - x / ?u) * ?u\<bar>"
      using u by (simp add: abs_mult)
    also have "(of_int (rne (x / ?u)) - x / ?u) * ?u = of_int (rne (x / ?u)) * ?u - x"
      using u by (simp add: left_diff_distrib)
    finally show ?thesis .
  qed
  ultimately show ?thesis by simp
qed

lemma round64_error:
  assumes "round64 x = Finite y"
  shows "\<bar>y - x\<bar> \<le> ulp64 x / 2"
  unfolding round64_value [OF assms] by (rule rounded_error)

lemma round64_finite:
  assumes "\<bar>x\<bar> < 2 ^ 1023"
  shows "\<exists>y. round64 x = Finite y"
proof -
  let ?y = "of_int (rne (x / ulp64 x)) * ulp64 x"
  have "\<bar>?y - x\<bar> \<le> ulp64 x / 2"
    by (rule rounded_error)
  moreover have "ulp64 x \<le> max (\<bar>x\<bar> / 2 ^ 52) (1 / 2 ^ 1074)"
    by (rule ulp64_le)
  moreover have "\<bar>x\<bar> / 2 ^ 52 \<le> \<bar>x\<bar>"
    by (simp add: field_simps)
  moreover have "(1::real) / 2 ^ 1074 \<le> 1"
    by simp
  moreover have "(2::real) ^ 1023 + 2 ^ 1023 = 2 ^ 1024" "(1::real) \<le> 2 ^ 1023"
    by simp_all
  ultimately have "\<bar>?y\<bar> < 2 ^ 1024"
    using assms by linarith
  then show ?thesis
    by (simp add: round64_def Let_def)
qed

lemma round64_exact:
  assumes "x = of_int n * ulp64 x" and "\<bar>x\<bar> < 2 ^ 1024"
  shows "round64 x = Finite x"
proof -
  have u: "0 < ulp64 x" by (rule ulp64_pos)
  from assms(1) have "x / ulp64 x = of_int n"
    using u by (simp add: nonzero_divide_eq_eq)
  then have "of_int (rne (x / ulp64 x)) * ulp64 x = x"
    using assms(1) by (simp add: rne_of_int)
  with assms(2) show ?thesis
    by (simp add: round64_def Let_def)
qed

lemma round64_int:
  assumes "\<bar>n\<bar> < 2 ^ 53"
  shows "round64 (of_int n) = Finite (of_int n)"
proof (cases "n = 0")
  case True
  have "(0::real) = of_int 0 * ulp64 0" by simp
  then have "round64 0 = Finite 0"
    by (rule round64_exact) simp
  with True show ?thesis by simp
next
  case False
  let ?x = "of_int n :: real"
  from False have "1 \<le> \<bar>?x\<bar>"
    by (metis abs_zero int_one_le_iff_zero_less linorder_not_le of_int_1_le_iff of_int_abs
        zero_less_abs_iff)
  then obtain k :: nat where a: "ulp64 ?x = 2 ^ k / 2 ^ 52" and b: "2 ^ k \<le> \<bar>?x\<bar>"
    by (rule ulp64_big)
  from assms have c: "\<bar>?x\<bar> < 2 ^ 53"
    by (metis of_int_abs of_int_less_numeral_power_cancel_iff)
  with b have "(2::real) ^ k < 2 ^ 53"
    by linarith
  then have "k < 53"
    by (simp only: power_strict_increasing_iff)
  then have "(2::real) ^ (52 - k) * 2 ^ k = 2 ^ 52"
    by (simp only: power_add [symmetric]) simp
  then have "?x = of_int (n * 2 ^ (52 - k)) * ulp64 ?x"
    unfolding a by (simp add: field_simps)
  moreover from c have "\<bar>?x\<bar> < 2 ^ 1024"
    by (rule less_trans) simp
  ultimately show ?thesis
    by (rule round64_exact)
qed

lemma round64_overflow:
  assumes "2 ^ 1024 \<le> \<bar>x\<bar>"
  shows "round64 x = (if 0 < x then Infinity else NegInfinity)"
proof -
  let ?u = "ulp64 x"
  let ?y = "of_int (rne (x / ?u)) * ?u"
  have "(1::real) \<le> 2 ^ 1024"
    by simp
  with assms have "1 \<le> \<bar>x\<bar>"
    by linarith
  then obtain k :: nat where a: "?u = 2 ^ k / 2 ^ 52" and b: "2 ^ k \<le> \<bar>x\<bar>"
    and c: "\<bar>x\<bar> < 2 ^ (k + 1)"
    by (rule ulp64_big)
  from assms c have "(2::real) ^ 1024 < 2 ^ (k + 1)"
    by linarith
  then have "1024 < k + 1"
    by (simp only: power_strict_increasing_iff) 
  then have "(2::real) ^ 1024 \<le> 2 ^ k"
    by (intro power_increasing) simp_all
  have u: "0 < ?u" by (rule ulp64_pos)
  have s: "(2::real) ^ 52 * ?u = 2 ^ k"
    unfolding a by simp
  have "2 ^ k \<le> \<bar>?y\<bar>"
  proof (cases "0 < x")
    case True
    with b have "2 ^ k \<le> x" by simp
    with s have "2 ^ 52 * ?u \<le> x" by simp
    then have "of_int (2 ^ 52) \<le> x / ?u"
      using u by (simp add: pos_le_divide_eq)
    then have "2 ^ 52 \<le> rne (x / ?u)"
      by (rule rne_ge)
    then have "(2::real) ^ 52 \<le> of_int (rne (x / ?u))"
      by (metis of_int_le_iff of_int_numeral of_int_power)
    then have "2 ^ 52 * ?u \<le> ?y"
      using u by (intro mult_right_mono) simp_all
    with s show ?thesis by linarith
  next
    case False
    with b have "x \<le> - (2 ^ k)" by linarith
    with s have "x \<le> - (2 ^ 52) * ?u" by simp
    then have "x / ?u \<le> of_int (- (2 ^ 52))"
      using u by (simp add: pos_divide_le_eq)
    then have "rne (x / ?u) \<le> - (2 ^ 52)"
      by (rule rne_le)
    then have "of_int (rne (x / ?u)) \<le> - ((2::real) ^ 52)"
      by (metis of_int_le_iff of_int_minus of_int_numeral of_int_power)
    then have "?y \<le> - (2 ^ 52) * ?u"
      using u by (intro mult_right_mono) simp_all
    with s show ?thesis by linarith
  qed
  with \<open>(2::real) ^ 1024 \<le> 2 ^ k\<close> have "2 ^ 1024 \<le> \<bar>?y\<bar>"
    by linarith
  then show ?thesis
    by (simp add: round64_def Let_def)
qed

lemma half_max_le:
  fixes a u p q :: real
  assumes "a \<le> u / 2" and "u \<le> max p q" and "0 \<le> p" and "0 \<le> q"
  shows "a \<le> p / 2 + q / 2"
  using assms by linarith

lemma max_closer:
  fixes y g :: real
  assumes "3 \<le> g"
  shows "\<bar>max 3 y - g\<bar> \<le> \<bar>y - g\<bar>"
  using assms by linarith

lemma round64_eval:
  assumes "ulp64 x = u" and "rne (x / u) = n" and "of_int n * u = y" and "\<bar>y\<bar> < 2 ^ 1024"
  shows "round64 x = Finite y"
  using assms by (simp add: round64_def Let_def)

lemma round64_rel:
  assumes "\<bar>x\<bar> < 2 ^ 1023"
  obtains y where "round64 x = Finite y" and "\<bar>y - x\<bar> \<le> \<bar>x\<bar> / 2 ^ 53 + 1 / 2 ^ 1075"
proof -
  from round64_finite [OF assms] obtain y where y: "round64 x = Finite y"
    by blast
  have "\<bar>y - x\<bar> \<le> ulp64 x / 2"
    using y by (rule round64_error)
  moreover have "ulp64 x \<le> max (\<bar>x\<bar> / 2 ^ 52) (1 / 2 ^ 1074)"
    by (rule ulp64_le)
  moreover have "0 \<le> \<bar>x\<bar> / 2 ^ 52" "(0::real) \<le> 1 / 2 ^ 1074"
    by simp_all
  ultimately have "\<bar>y - x\<bar> \<le> \<bar>x\<bar> / 2 ^ 52 / 2 + 1 / 2 ^ 1074 / 2"
    by (rule half_max_le)
  then have "\<bar>y - x\<bar> \<le> \<bar>x\<bar> / 2 ^ 53 + 1 / 2 ^ 1075"
    by simp
  with y show ?thesis by (rule that)
qed

subsection \<open>The radius\<close>

lemma mul64_2_not_NaN: "x \<noteq> NaN \<Longrightarrow> mul64 x (Finite 2) \<noteq> NaN"
  by (cases x) (simp_all add: mul64_def round64_not_NaN)

lemma add64_3_not_NaN: "y \<noteq> NaN \<Longrightarrow> add64 y (Finite 3) \<noteq> NaN"
  by (cases y) (simp_all add: add64_def round64_not_NaN)

lemma math_max_3_ge: "z \<noteq> NaN \<Longrightarrow> num_ge (math_max (Finite 3) z) (Finite 3)"
  by (cases z) auto

lemma radius_ge_3: "m \<noteq> Some NaN \<Longrightarrow> num_ge (radius m) (Finite 3)"
proof -
  assume "m \<noteq> Some NaN"
  then have "nullish m (Finite 0) \<noteq> NaN"
    by (cases m) simp_all
  then have "add64 (mul64 (nullish m (Finite 0)) (Finite 2)) (Finite 3) \<noteq> NaN"
    by (intro add64_3_not_NaN mul64_2_not_NaN)
  then show ?thesis
    unfolding radius_def by (rule math_max_3_ge)
qed

lemma radius_Finite:
  "radius (Some (Finite r)) = math_max (Finite 3) (round_num (num_add (round64 (r * 2)) (Finite 3)))"
  by (simp add: radius_def mul64_def add64_def)

lemma radius_None: "radius None = Finite 3"
proof -
  have "round64 (of_int 0) = Finite (of_int 0)" "round64 (of_int 3) = Finite (of_int 3)"
    by (rule round64_int, simp)+
  then show ?thesis
    by (simp add: radius_def mul64_def add64_def)
qed

lemma radius_int:
  assumes "0 \<le> n" and "n \<le> 2 ^ 50"
  shows "radius (Some (Finite (of_int n))) = Finite (2 * of_int n + 3)"
proof -
  from assms have "\<bar>n * 2\<bar> < 2 ^ 53" and "\<bar>n * 2 + 3\<bar> < 2 ^ 53"
    by simp_all
  from this(1) have "round64 (of_int (n * 2)) = Finite (of_int (n * 2))"
    by (rule round64_int)
  moreover from \<open>\<bar>n * 2 + 3\<bar> < 2 ^ 53\<close>
  have "round64 (of_int (n * 2 + 3)) = Finite (of_int (n * 2 + 3))"
    by (rule round64_int)
  ultimately have "round64 (of_int n * 2) = Finite (of_int n * 2)"
    and "round64 (of_int n * 2 + 3) = Finite (of_int n * 2 + 3)"
    by simp_all
  with assms(1) show ?thesis
    by (simp add: radius_Finite)
qed

lemma radius_overflow:
  assumes "2 ^ 1023 \<le> r"
  shows "radius (Some (Finite r)) = Infinity"
proof -
  have "(2::real) ^ 1024 = 2 ^ 1023 * 2" "(0::real) < 2 ^ 1023"
    by simp_all
  with assms have "2 ^ 1024 \<le> \<bar>r * 2\<bar>" "0 < r * 2"
    by linarith+
  with round64_overflow [of "r * 2"] have "round64 (r * 2) = Infinity"
    by simp
  then show ?thesis
    by (simp add: radius_Finite)
qed

lemma radius_near:
  assumes "0 \<le> q" and "q \<le> 2 ^ 1021"
  shows "\<exists>y. radius (Some (Finite q)) = Finite y \<and> \<bar>y - (2 * q + 3)\<bar> \<le> (2 * q + 3) / 2 ^ 51"
proof -
  have p: "(2::real) ^ 1021 * 2 < 2 ^ 1023" "(2::real) ^ 1021 * 4 = 2 ^ 1023"
    "(1::real) / 2 ^ 1075 \<le> 1" "(6::real) \<le> 2 ^ 1021"
    by simp_all
  with assms have "\<bar>q * 2\<bar> < 2 ^ 1023"
    by linarith
  then obtain t where t: "round64 (q * 2) = Finite t"
    and te: "\<bar>t - q * 2\<bar> \<le> \<bar>q * 2\<bar> / 2 ^ 53 + 1 / 2 ^ 1075"
    by (rule round64_rel)
  have h: "\<bar>q * 2\<bar> / 2 ^ 53 \<le> \<bar>q * 2\<bar> / 2"
    by (intro divide_left_mono) simp_all
  with p te assms have "\<bar>t + 3\<bar> < 2 ^ 1023"
    by linarith
  then obtain y where y: "round64 (t + 3) = Finite y"
    and ye: "\<bar>y - (t + 3)\<bar> \<le> \<bar>t + 3\<bar> / 2 ^ 53 + 1 / 2 ^ 1075"
    by (rule round64_rel)
  from t y have r: "radius (Some (Finite q)) = Finite (max 3 y)"
    by (simp add: radius_Finite max_def)
  have d: "\<bar>q * 2\<bar> / 2 ^ 53 = q / 2 ^ 52" "\<bar>t + 3\<bar> / 2 ^ 53 \<le> (\<bar>t - q * 2\<bar> + 2 * q + 3) / 2 ^ 53"
    "(2 * q + 3) / 2 ^ 51 = (8 * q + 12) / 2 ^ 53"
    "(\<bar>t - q * 2\<bar> + 2 * q + 3) / 2 ^ 53 = \<bar>t - q * 2\<bar> / 2 ^ 53 + (2 * q + 3) / 2 ^ 53"
    "\<bar>t - q * 2\<bar> / 2 ^ 53 \<le> \<bar>t - q * 2\<bar>" "(1::real) / 2 ^ 1075 \<le> 1 / 2 ^ 53"
    "q / 2 ^ 52 = 2 * q / 2 ^ 53"
    using assms(1) by (simp_all add: divide_right_mono add_divide_distrib)
  have "\<bar>y - (2 * q + 3)\<bar> \<le> \<bar>y - (t + 3)\<bar> + \<bar>t - q * 2\<bar>"
    by linarith
  also have "\<dots> \<le> (8 * q + 12) / 2 ^ 53"
  proof -
    have "\<bar>t - q * 2\<bar> \<le> 2 * q / 2 ^ 53 + 1 / 2 ^ 53"
      using te d by linarith
    moreover have "\<bar>y - (t + 3)\<bar> \<le> \<bar>t - q * 2\<bar> + (2 * q + 3) / 2 ^ 53 + 1 / 2 ^ 53"
      using ye d by linarith
    moreover have "(8 * q + 12) / 2 ^ 53 = 2 * (2 * q / 2 ^ 53) + 2 * ((2 * q + 3) / 2 ^ 53) + 6 / 2 ^ 53"
      by (simp add: add_divide_distrib)
    moreover have "0 \<le> 2 * q / 2 ^ 53" "0 \<le> (2 * q + 3) / 2 ^ 53"
      using assms(1) by simp_all
    moreover have "(3::real) / 2 ^ 53 \<le> 6 / 2 ^ 53" "(1::real) / 2 ^ 53 + 1 / 2 ^ 53 + 1 / 2 ^ 53 = 3 / 2 ^ 53"
      by simp_all
    ultimately show ?thesis
      by linarith
  qed
  finally have "\<bar>y - (2 * q + 3)\<bar> \<le> (2 * q + 3) / 2 ^ 51"
    using d(3) by simp
  moreover from assms(1) have "\<bar>max 3 y - (2 * q + 3)\<bar> \<le> \<bar>y - (2 * q + 3)\<bar>"
    by (intro max_closer) simp
  ultimately have "\<bar>max 3 y - (2 * q + 3)\<bar> \<le> (2 * q + 3) / 2 ^ 51"
    by (rule order_trans [rotated])
  with r show ?thesis by blast
qed

lemma ulp_down_numeral:
  "ulp_down (numeral k) x u = (if x < 1 then ulp_down (pred_numeral k) (2 * x) (u / 2) else u)"
  by (simp add: numeral_eq_Suc)

lemma round64_half_up: "round64 (1 / 2 + 1 / 2 ^ 53) = Finite (1 / 2 + 1 / 2 ^ 53)"
proof -
  have "ulp64 (1 / 2 + 1 / 2 ^ 53) = 1 / 2 ^ 53"
    by (simp add: ulp64_def ulp_down_numeral)
  then have "(1 / 2 + 1 / 2 ^ 53 :: real) = of_int (2 ^ 52 + 1) * ulp64 (1 / 2 + 1 / 2 ^ 53)"
    by simp
  then show ?thesis
    by (rule round64_exact) simp
qed

lemma round64_one_up: "round64 (1 + 1 / 2 ^ 52) = Finite (1 + 1 / 2 ^ 52)"
proof -
  have "ulp64 (1 + 1 / 2 ^ 52) = 1 / 2 ^ 52"
    by (simp add: ulp64_def ulp_up.simps)
  then have "(1 + 1 / 2 ^ 52 :: real) = of_int (2 ^ 52 + 1) * ulp64 (1 + 1 / 2 ^ 52)"
    by simp
  then show ?thesis
    by (rule round64_exact) simp
qed

lemma round64_four_up: "round64 (4 + 1 / 2 ^ 52) = Finite 4"
  by (rule round64_eval [where u = "1 / 2 ^ 50" and n = "2 ^ 52"])
    (simp_all add: ulp64_def ulp_up.simps rne_def Let_def)

lemma radius_half_up: "radius (Some (Finite (1 / 2 + 1 / 2 ^ 53))) = Finite 4"
proof -
  have "(1 / 2 + 1 / 2 ^ 53) * 2 = (1 + 1 / 2 ^ 52 :: real)" "1 + 1 / 2 ^ 52 + 3 = (4 + 1 / 2 ^ 52 :: real)"
    by simp_all
  then show ?thesis
    by (simp only: radius_Finite round64_one_up round64_four_up num_add.simps round_num.simps)
      simp
qed

text \<open>
  The magnitude 1.14: the program's radius is \<^verbatim>\<open>5.279999999999999\<close>, the double
  2972375754064527 / 2 ^ 49. The sum lies midway between two doubles there and goes to the
  even one.
\<close>

lemma round64_228: "round64 (114 / 100 * 2) = Finite (5134103575202365 / 2251799813685248)"
  by (rule round64_eval [where u = "1 / 2 ^ 51" and n = 5134103575202365])
    (simp_all add: ulp64_def ulp_up.simps rne_def Let_def)

lemma round64_528:
  "round64 (5134103575202365 / 2251799813685248 + 3) = Finite (2972375754064527 / 562949953421312)"
  by (rule round64_eval [where u = "1 / 2 ^ 50" and n = 5944751508129054])
    (simp_all add: ulp64_def ulp_up.simps rne_def Let_def)

lemma radius_114:
  "radius (Some (Finite (114 / 100))) = Finite (2972375754064527 / 562949953421312)"
  by (simp only: radius_Finite round64_228 round64_528 num_add.simps round_num.simps) simp

lemma round64_cases:
  "round64 x = (if 0 < x then Infinity else NegInfinity)
   \<or> round64 x = Finite (of_int (rne (x / ulp64 x)) * ulp64 x)"
  by (simp add: round64_def Let_def)

lemma rounded_le_multiple:
  assumes "x \<le> of_int m * ulp64 x"
  shows "of_int (rne (x / ulp64 x)) * ulp64 x \<le> of_int m * ulp64 x"
proof -
  have u: "0 < ulp64 x" by (rule ulp64_pos)
  with assms have "x / ulp64 x \<le> of_int m"
    by (simp add: pos_divide_le_eq)
  then have "rne (x / ulp64 x) \<le> m"
    by (rule rne_le)
  then have "(of_int (rne (x / ulp64 x)) :: real) \<le> of_int m"
    by simp
  then show ?thesis
    using u by (intro mult_right_mono) simp_all
qed

lemma three_multiple:
  assumes "0 < x" and "x \<le> 3"
  shows "\<exists>m. (3::real) = of_int m * ulp64 x"
proof (cases "1 \<le> \<bar>x\<bar>")
  case True
  then obtain k :: nat where a: "ulp64 x = 2 ^ k / 2 ^ 52" and b: "2 ^ k \<le> \<bar>x\<bar>"
    by (rule ulp64_big)
  from assms b have "(2::real) ^ k < 2 ^ 53"
    by simp
  then have "k < 53"
    by (simp only: power_strict_increasing_iff)
  then have "(2::real) ^ (52 - k) * 2 ^ k = 2 ^ 52"
    by (simp only: power_add [symmetric]) simp
  then have "(3::real) = of_int (3 * 2 ^ (52 - k)) * ulp64 x"
    unfolding a by (simp add: field_simps)
  then show ?thesis by blast
next
  case False
  then have "\<bar>x\<bar> < 1" by simp
  then obtain k :: nat where a: "ulp64 x = 1 / 2 ^ 52 / 2 ^ k"
    by (rule ulp64_little)
  have "(3::real) = of_int (3 * 2 ^ 52 * 2 ^ k) * ulp64 x"
    unfolding a by simp
  then show ?thesis by blast
qed

lemma round64_le_3:
  assumes "x \<le> 3"
  shows "round64 x = NegInfinity \<or> (\<exists>y. round64 x = Finite y \<and> y \<le> 3)"
proof (cases "0 < x")
  case True
  with assms have "\<bar>x\<bar> < 2 ^ 1023"
    by simp
  from round64_finite [OF this] obtain y where y: "round64 x = Finite y"
    by blast
  from three_multiple [OF True assms] obtain m where m: "(3::real) = of_int m * ulp64 x"
    by blast
  with assms have "x \<le> of_int m * ulp64 x"
    by simp
  then have "of_int (rne (x / ulp64 x)) * ulp64 x \<le> of_int m * ulp64 x"
    by (rule rounded_le_multiple)
  with m round64_value [OF y] have "y \<le> 3"
    by simp
  with y show ?thesis by blast
next
  case False
  then have "x \<le> of_int 0 * ulp64 x"
    by simp
  then have "of_int (rne (x / ulp64 x)) * ulp64 x \<le> of_int 0 * ulp64 x"
    by (rule rounded_le_multiple)
  then have "of_int (rne (x / ulp64 x)) * ulp64 x \<le> 3"
    by simp
  with False round64_cases [of x] show ?thesis
    by auto
qed

lemma round64_nonpos:
  assumes "x \<le> 0"
  shows "round64 x = NegInfinity \<or> (\<exists>y. round64 x = Finite y \<and> y \<le> 0)"
proof -
  from assms have "x \<le> of_int 0 * ulp64 x"
    by simp
  then have "of_int (rne (x / ulp64 x)) * ulp64 x \<le> of_int 0 * ulp64 x"
    by (rule rounded_le_multiple)
  then have "of_int (rne (x / ulp64 x)) * ulp64 x \<le> 0"
    by simp
  with assms round64_cases [of x] show ?thesis
    by auto
qed

lemma radius_nonpos:
  assumes "q \<le> 0"
  shows "radius (Some (Finite q)) = Finite 3"
proof -
  from assms have "q * 2 \<le> 0"
    by simp
  from round64_nonpos [OF this] show ?thesis
  proof (elim disjE exE conjE)
    assume "round64 (q * 2) = NegInfinity"
    then show ?thesis
      by (simp add: radius_Finite)
  next
    fix t
    assume t: "round64 (q * 2) = Finite t" and "t \<le> 0"
    then have "t + 3 \<le> 3"
      by simp
    from round64_le_3 [OF this] show ?thesis
    proof (elim disjE exE conjE)
      assume "round64 (t + 3) = NegInfinity"
      with t show ?thesis
        by (simp add: radius_Finite)
    next
      fix y
      assume "round64 (t + 3) = Finite y" and "y \<le> 3"
      with t show ?thesis
        by (simp add: radius_Finite)
    qed
  qed
qed

text \<open>
  C5, as stated, fails on the code. The magnitude \<^verbatim>\<open>0.5000000000000001\<close> is the double
  \<open>1 / 2 + 1 / 2 ^ 53\<close>. Twice it is a double again, but adding 3 gives
  \<open>4 + 1 / 2 ^ 52\<close>, which is none: the program's radius is 4, not the real number
  \<open>max 3 (m * 2 + 3)\<close>, and the radius is not \<open>2 * m + 3\<close> there.
\<close>

theorem radius_rounding_counterexample:
  "round64 (1 / 2 + 1 / 2 ^ 53) = Finite (1 / 2 + 1 / 2 ^ 53)
   \<and> radius (Some (Finite (1 / 2 + 1 / 2 ^ 53))) = Finite 4
   \<and> max 3 ((1 / 2 + 1 / 2 ^ 53) * 2 + 3) = (4 + 1 / 2 ^ 52 :: real)
   \<and> radius (Some (Finite (1 / 2 + 1 / 2 ^ 53)))
       \<noteq> Finite (max 3 ((1 / 2 + 1 / 2 ^ 53) * 2 + 3))"
proof -
  have a: "round64 (1 / 2 + 1 / 2 ^ 53) = Finite (1 / 2 + 1 / 2 ^ 53)"
    by (rule round64_half_up)
  have b: "radius (Some (Finite (1 / 2 + 1 / 2 ^ 53))) = Finite 4"
    by (rule radius_half_up)
  have c: "max 3 ((1 / 2 + 1 / 2 ^ 53) * 2 + 3) = (4 + 1 / 2 ^ 52 :: real)"
    by simp
  have d: "radius (Some (Finite (1 / 2 + 1 / 2 ^ 53)))
       \<noteq> Finite (max 3 ((1 / 2 + 1 / 2 ^ 53) * 2 + 3))"
    unfolding b c by simp
  from a b c d show ?thesis
    by (intro conjI)
qed

text \<open>
  C5, amended. The radius of a marker is the binary64 value of
  \<^verbatim>\<open>Math.max(3, (m ?? 0) * 2 + 3)\<close>: the product and the sum are each rounded to the nearest
  double. An absent magnitude counts as 0 and gives 3. The radius is at least 3 on every
  input that is not NaN, and exactly 3 for every magnitude up to 0. From 0 on it follows
  \<open>2 * m + 3\<close>: exactly for the whole magnitudes up to \<open>2 ^ 50\<close>, and within
  \<open>(2 * m + 3) / 2 ^ 51\<close> of it for every magnitude up to \<open>2 ^ 1021\<close>. There is no cap:
  from \<open>2 ^ 1023\<close> on, and for an infinite magnitude, the radius is \<^verbatim>\<open>Infinity\<close>. At
  magnitude 1.14 the radius is the double \<^verbatim>\<open>5.279999999999999\<close>. \<open>MapView\<close> gives each
  marker this radius.
\<close>

theorem radius_floor:
  "radius None = Finite 3
   \<and> radius None = radius (Some (Finite 0))
   \<and> num_ge (radius (Some (Finite r))) (Finite 3)
   \<and> (m \<noteq> Some NaN \<longrightarrow> num_ge (radius m) (Finite 3))
   \<and> (r \<le> 0 \<longrightarrow> radius (Some (Finite r)) = Finite 3)
   \<and> (0 \<le> n \<and> n \<le> 2 ^ 50 \<longrightarrow> radius (Some (Finite (of_int n))) = Finite (2 * of_int n + 3))
   \<and> (0 \<le> q \<and> q \<le> 2 ^ 1021 \<longrightarrow>
        (\<exists>y. radius (Some (Finite q)) = Finite y
           \<and> \<bar>y - (2 * q + 3)\<bar> \<le> (2 * q + 3) / 2 ^ 51))
   \<and> (2 ^ 1023 \<le> B \<longrightarrow> radius (Some (Finite B)) = Infinity)
   \<and> radius (Some Infinity) = Infinity
   \<and> radius (Some (Finite (114 / 100))) = Finite (2972375754064527 / 562949953421312)
   \<and> map marker_radius (MapView fs) = map (\<lambda>f. radius (mag (properties f))) fs"
proof -
  have zero: "radius (Some (Finite 0)) = Finite 3"
    by (simp add: radius_nonpos)
  have floor: "num_ge (radius (Some (Finite r))) (Finite 3)"
    by (simp add: radius_ge_3)
  have inf: "radius (Some Infinity) = Infinity"
    by (simp add: radius_def mul64_def add64_def)
  have markers: "map marker_radius (MapView fs) = map (\<lambda>f. radius (mag (properties f))) fs"
    by (simp add: MapView_def marker_def split: prod.splits)
  from zero floor inf markers radius_None radius_ge_3 [of m] radius_nonpos [of r]
    radius_int [of n] radius_near [of q] radius_overflow [of B] radius_114
  show ?thesis by simp
qed

theorem radius_floor_witness:
  "Some (Finite (- 4)) \<noteq> Some NaN
   \<and> num_ge (radius (Some (Finite (- 4)))) (Finite 3)
   \<and> (- 4 :: real) \<le> 0
   \<and> radius (Some (Finite (- 4))) = Finite 3
   \<and> (0::int) \<le> 2 \<and> (2::int) \<le> 2 ^ 50
   \<and> radius (Some (Finite (of_int 2))) = Finite (2 * of_int 2 + 3)
   \<and> (0::real) \<le> 114 / 100 \<and> (114 / 100 :: real) \<le> 2 ^ 1021
   \<and> (\<exists>y. radius (Some (Finite (114 / 100))) = Finite y
         \<and> \<bar>y - (2 * (114 / 100) + 3)\<bar> \<le> (2 * (114 / 100) + 3) / 2 ^ 51)
   \<and> (2::real) ^ 1023 \<le> 2 ^ 1023
   \<and> radius (Some (Finite (2 ^ 1023))) = Infinity"
proof -
  have h: "Some (Finite (- 4)) \<noteq> Some NaN" "(- 4 :: real) \<le> 0"
    "(0::int) \<le> 2" "(2::int) \<le> 2 ^ 50"
    "(0::real) \<le> 114 / 100" "(114 / 100 :: real) \<le> 2 ^ 1021" "(2::real) ^ 1023 \<le> 2 ^ 1023"
    by simp_all
  from h radius_floor [of "- 4" "Some (Finite (- 4))" 2 "114 / 100" "2 ^ 1023" "[]"]
  show ?thesis by blast
qed

section \<open>Properties of the controller\<close>

lemma run_append: "run (xs @ ys) s = run ys (run xs s)"
  by (simp add: run_def)

lemma run_loadData_begin: "run loadData_begin s = s\<lparr>loading := True, error := None\<rparr>"
  by (simp add: run_def loadData_begin_def)

lemma try_block_thrown:
  "snd (try_block rt r) = Some e \<Longrightarrow> try_block rt r = ([], Some e)"
  by (auto simp: try_block_def split: fetch_result.splits json_result.splits json_body.splits
      if_splits)

lemma run_settle_thrown:
  assumes "snd (try_block rt r) = Some e"
  shows "run (loadData_settle rt r) s = s\<lparr>error := Some (catch_message e), loading := False\<rparr>"
proof -
  from assms have "try_block rt r = ([], Some e)"
    by (rule try_block_thrown)
  then have "loadData_settle rt r = [SetError (Some (catch_message e)), SetLoading False]"
    by (simp add: loadData_settle_def)
  then show ?thesis
    by (simp add: run_def)
qed

lemma run_loadData_thrown:
  assumes "snd (try_block rt r) = Some e"
  shows "run (loadData rt r) s = s\<lparr>loading := False, error := Some (catch_message e)\<rparr>"
  by (simp add: loadData_def run_append run_loadData_begin run_settle_thrown [OF assms])

lemma run_loadData_object:
  assumes "ok res" and "json res = JsonResolved (JsonObject j)"
  shows "run (loadData rt (FetchResolved res)) s =
         s\<lparr>features := or_array (json_features j) [],
           lastUpdated := Some (nullish (Option.bind (json_metadata j) generated) (date_now rt)),
           loading := False, error := None\<rparr>"
proof -
  from assms have "loadData_settle rt (FetchResolved res) =
      [SetFeatures (or_array (json_features j) []),
       SetLastUpdated (Some (nullish (Option.bind (json_metadata j) generated) (date_now rt))),
       SetLoading False]"
    by (simp add: loadData_settle_def try_block_def)
  then show ?thesis
    by (simp add: loadData_def run_append run_loadData_begin) (simp add: run_def)
qed

lemma string_of_nat_500: "string_of_nat 500 = ''500''"
  by (simp add: string_of_nat.simps)

lemma try_block_http:
  "\<not> ok res \<Longrightarrow>
   try_block rt (FetchResolved res) =
     ([], Some (ErrorInstance (''HTTP '' @ string_of_nat (status res))))"
  by (simp add: try_block_def)

lemma thrown_iff:
  "(snd (try_block rt r) \<noteq> None) =
     ((\<exists>x. r = FetchRejected x)
      \<or> (\<exists>res. r = FetchResolved res
            \<and> (status res < 200 \<or> 299 < status res
               \<or> (\<exists>x. json res = JsonRejected x) \<or> json res = JsonResolved JsonNull)))"
  by (auto simp: try_block_def ok_def
      split: fetch_result.splits json_result.splits json_body.splits)

lemma settle_rejected:
  "run (loadData_settle rt (FetchRejected x)) s =
     s\<lparr>error := Some (case x of ErrorInstance m \<Rightarrow> m | OtherValue \<Rightarrow> ''Unknown error''),
       loading := False\<rparr>"
  using run_settle_thrown [of rt "FetchRejected x" x s]
  by (simp add: try_block_def catch_message_def)

lemma settle_http:
  assumes "status res < 200 \<or> 299 < status res"
  shows "run (loadData_settle rt (FetchResolved res)) s =
     s\<lparr>error := Some (''HTTP '' @ string_of_nat (status res)), loading := False\<rparr>"
proof -
  from assms have "\<not> ok res"
    by (auto simp: ok_def)
  then have "snd (try_block rt (FetchResolved res))
      = Some (ErrorInstance (''HTTP '' @ string_of_nat (status res)))"
    by (simp add: try_block_http)
  from run_settle_thrown [OF this, of s] show ?thesis
    by (simp add: catch_message_def)
qed

lemma settle_json_rejected:
  assumes "200 \<le> status res \<and> status res \<le> 299" and "json res = JsonRejected x"
  shows "run (loadData_settle rt (FetchResolved res)) s =
     s\<lparr>error := Some (case x of ErrorInstance m \<Rightarrow> m | OtherValue \<Rightarrow> ''Unknown error''),
       loading := False\<rparr>"
proof -
  from assms have "snd (try_block rt (FetchResolved res)) = Some x"
    by (simp add: try_block_def ok_def)
  from run_settle_thrown [OF this, of s] show ?thesis
    by (simp add: catch_message_def)
qed

lemma settle_json_null:
  assumes "200 \<le> status res \<and> status res \<le> 299" and "json res = JsonResolved JsonNull"
  shows "run (loadData_settle rt (FetchResolved res)) s =
     s\<lparr>error := Some (null_property_message rt), loading := False\<rparr>"
proof -
  from assms have "snd (try_block rt (FetchResolved res))
      = Some (ErrorInstance (null_property_message rt))"
    by (simp add: try_block_def ok_def)
  from run_settle_thrown [OF this, of s] show ?thesis
    by (simp add: catch_message_def)
qed

lemma run_loadData_settle:
  "run (loadData rt r) s = run (loadData_settle rt r) (s\<lparr>loading := True, error := None\<rparr>)"
  by (simp add: loadData_def run_append run_loadData_begin)

text \<open>
  C3. Whatever the state, a load whose request fails (the \<^verbatim>\<open>try\<close> block throws) leaves
  the events, the timestamp and the threshold as they were, sets the error to the message
  of the failure and clears the loading flag. The same holds of the part of the load that
  runs once the request has settled, from whatever state it then finds. The failures are
  a rejected request, a status outside 200 to 299, a body that is not JSON and a
  \<^verbatim>\<open>null\<close> body, and the message is, in this order: the message of the rejection
  (\<^verbatim>\<open>Unknown error\<close> when what was thrown is no \<^verbatim>\<open>Error\<close>), \<^verbatim>\<open>HTTP\<close> followed by the
  status, the message of the parser's rejection, and the host's message for reading a
  property of \<^verbatim>\<open>null\<close>. A response of status 500 is a failure with the message
  \<^verbatim>\<open>HTTP 500\<close>.
\<close>

theorem loadData_failure:
  "(snd (try_block rt r) = Some e \<longrightarrow>
      features (run (loadData rt r) s) = features s
      \<and> lastUpdated (run (loadData rt r) s) = lastUpdated s
      \<and> minMag (run (loadData rt r) s) = minMag s
      \<and> error (run (loadData rt r) s) = Some (catch_message e)
      \<and> loading (run (loadData rt r) s) = False
      \<and> run (loadData_settle rt r) s = s\<lparr>error := Some (catch_message e), loading := False\<rparr>)
   \<and> snd (try_block rt (FetchResolved \<lparr>status = 500, json = b\<rparr>))
       = Some (ErrorInstance ''HTTP 500'')
   \<and> run (loadData rt (FetchResolved \<lparr>status = 500, json = b\<rparr>)) s
       = s\<lparr>loading := False, error := Some ''HTTP 500''\<rparr>
   \<and> (snd (try_block rt r) \<noteq> None) =
       ((\<exists>x. r = FetchRejected x)
        \<or> (\<exists>res. r = FetchResolved res
              \<and> (status res < 200 \<or> 299 < status res
                 \<or> (\<exists>x. json res = JsonRejected x) \<or> json res = JsonResolved JsonNull)))
   \<and> run (loadData rt (FetchRejected (ErrorInstance msg))) s
       = s\<lparr>loading := False, error := Some msg\<rparr>
   \<and> run (loadData rt (FetchRejected OtherValue)) s
       = s\<lparr>loading := False, error := Some ''Unknown error''\<rparr>
   \<and> (status res < 200 \<or> 299 < status res \<longrightarrow>
        run (loadData rt (FetchResolved res)) s
          = s\<lparr>loading := False, error := Some (''HTTP '' @ string_of_nat (status res))\<rparr>)
   \<and> (200 \<le> status res \<and> status res \<le> 299 \<and> json res = JsonRejected (ErrorInstance msg) \<longrightarrow>
        run (loadData rt (FetchResolved res)) s = s\<lparr>loading := False, error := Some msg\<rparr>)
   \<and> (200 \<le> status res \<and> status res \<le> 299 \<and> json res = JsonRejected OtherValue \<longrightarrow>
        run (loadData rt (FetchResolved res)) s
          = s\<lparr>loading := False, error := Some ''Unknown error''\<rparr>)
   \<and> (200 \<le> status res \<and> status res \<le> 299 \<and> json res = JsonResolved JsonNull \<longrightarrow>
        run (loadData rt (FetchResolved res)) s
          = s\<lparr>loading := False, error := Some (null_property_message rt)\<rparr>)
   \<and> run (loadData_settle rt (FetchRejected (ErrorInstance msg))) s
       = s\<lparr>error := Some msg, loading := False\<rparr>
   \<and> run (loadData_settle rt (FetchRejected OtherValue)) s
       = s\<lparr>error := Some ''Unknown error'', loading := False\<rparr>
   \<and> (status res < 200 \<or> 299 < status res \<longrightarrow>
        run (loadData_settle rt (FetchResolved res)) s
          = s\<lparr>error := Some (''HTTP '' @ string_of_nat (status res)), loading := False\<rparr>)
   \<and> (200 \<le> status res \<and> status res \<le> 299 \<and> json res = JsonRejected (ErrorInstance msg) \<longrightarrow>
        run (loadData_settle rt (FetchResolved res)) s = s\<lparr>error := Some msg, loading := False\<rparr>)
   \<and> (200 \<le> status res \<and> status res \<le> 299 \<and> json res = JsonRejected OtherValue \<longrightarrow>
        run (loadData_settle rt (FetchResolved res)) s
          = s\<lparr>error := Some ''Unknown error'', loading := False\<rparr>)
   \<and> (200 \<le> status res \<and> status res \<le> 299 \<and> json res = JsonResolved JsonNull \<longrightarrow>
        run (loadData_settle rt (FetchResolved res)) s
          = s\<lparr>error := Some (null_property_message rt), loading := False\<rparr>)"
proof -
  have bad: "\<not> ok \<lparr>status = 500, json = b\<rparr>"
    by (simp add: ok_def)
  have thrown: "snd (try_block rt (FetchResolved \<lparr>status = 500, json = b\<rparr>))
      = Some (ErrorInstance ''HTTP 500'')"
    using try_block_http [OF bad, of rt] by (simp add: string_of_nat_500)
  have after: "run (loadData rt (FetchResolved \<lparr>status = 500, json = b\<rparr>)) s
      = s\<lparr>loading := False, error := Some ''HTTP 500''\<rparr>"
    using run_loadData_thrown [OF thrown, of s] by (simp add: catch_message_def)
  have general: "snd (try_block rt r) = Some e \<longrightarrow>
      run (loadData rt r) s = s\<lparr>loading := False, error := Some (catch_message e)\<rparr>
      \<and> run (loadData_settle rt r) s = s\<lparr>error := Some (catch_message e), loading := False\<rparr>"
    by (simp add: run_loadData_thrown run_settle_thrown)
  have old: "(snd (try_block rt r) = Some e \<longrightarrow>
      features (run (loadData rt r) s) = features s
      \<and> lastUpdated (run (loadData rt r) s) = lastUpdated s
      \<and> minMag (run (loadData rt r) s) = minMag s
      \<and> error (run (loadData rt r) s) = Some (catch_message e)
      \<and> loading (run (loadData rt r) s) = False
      \<and> run (loadData_settle rt r) s = s\<lparr>error := Some (catch_message e), loading := False\<rparr>)"
    using general by auto
  have s1: "run (loadData_settle rt (FetchRejected (ErrorInstance msg))) t
       = t\<lparr>error := Some msg, loading := False\<rparr>" for t
    by (simp add: settle_rejected)
  have s2: "run (loadData_settle rt (FetchRejected OtherValue)) t
       = t\<lparr>error := Some ''Unknown error'', loading := False\<rparr>" for t
    by (simp add: settle_rejected)
  have s3: "status res < 200 \<or> 299 < status res \<longrightarrow>
        run (loadData_settle rt (FetchResolved res)) t
          = t\<lparr>error := Some (''HTTP '' @ string_of_nat (status res)), loading := False\<rparr>" for t
    by (simp add: settle_http)
  have s4: "200 \<le> status res \<and> status res \<le> 299 \<and> json res = JsonRejected (ErrorInstance msg) \<longrightarrow>
        run (loadData_settle rt (FetchResolved res)) t = t\<lparr>error := Some msg, loading := False\<rparr>" for t
    using settle_json_rejected [of res "ErrorInstance msg" rt t] by simp
  have s5: "200 \<le> status res \<and> status res \<le> 299 \<and> json res = JsonRejected OtherValue \<longrightarrow>
        run (loadData_settle rt (FetchResolved res)) t
          = t\<lparr>error := Some ''Unknown error'', loading := False\<rparr>" for t
    using settle_json_rejected [of res OtherValue rt t] by simp
  have s6: "200 \<le> status res \<and> status res \<le> 299 \<and> json res = JsonResolved JsonNull \<longrightarrow>
        run (loadData_settle rt (FetchResolved res)) t
          = t\<lparr>error := Some (null_property_message rt), loading := False\<rparr>" for t
    using settle_json_null [of res rt t] by simp
  have l1: "run (loadData rt (FetchRejected (ErrorInstance msg))) s
       = s\<lparr>loading := False, error := Some msg\<rparr>"
    by (simp add: run_loadData_settle s1)
  have l2: "run (loadData rt (FetchRejected OtherValue)) s
       = s\<lparr>loading := False, error := Some ''Unknown error''\<rparr>"
    by (simp add: run_loadData_settle s2)
  have l3: "status res < 200 \<or> 299 < status res \<longrightarrow>
        run (loadData rt (FetchResolved res)) s
          = s\<lparr>loading := False, error := Some (''HTTP '' @ string_of_nat (status res))\<rparr>"
    using s3 [of "s\<lparr>loading := True, error := None\<rparr>"] by (simp add: run_loadData_settle)
  have l4: "200 \<le> status res \<and> status res \<le> 299 \<and> json res = JsonRejected (ErrorInstance msg) \<longrightarrow>
        run (loadData rt (FetchResolved res)) s = s\<lparr>loading := False, error := Some msg\<rparr>"
    using s4 [of "s\<lparr>loading := True, error := None\<rparr>"] by (simp add: run_loadData_settle)
  have l5: "200 \<le> status res \<and> status res \<le> 299 \<and> json res = JsonRejected OtherValue \<longrightarrow>
        run (loadData rt (FetchResolved res)) s
          = s\<lparr>loading := False, error := Some ''Unknown error''\<rparr>"
    using s5 [of "s\<lparr>loading := True, error := None\<rparr>"] by (simp add: run_loadData_settle)
  have l6: "200 \<le> status res \<and> status res \<le> 299 \<and> json res = JsonResolved JsonNull \<longrightarrow>
        run (loadData rt (FetchResolved res)) s
          = s\<lparr>loading := False, error := Some (null_property_message rt)\<rparr>"
    using s6 [of "s\<lparr>loading := True, error := None\<rparr>"] by (simp add: run_loadData_settle)
  note all = old thrown after thrown_iff [of rt r] l1 l2 l3 l4 l5 l6
    s1 [of s] s2 [of s] s3 [of s] s4 [of s] s5 [of s] s6 [of s]
  show ?thesis
    by (intro conjI all)
qed

theorem loadData_failure_witness:
  "snd (try_block sample_runtime (FetchResolved \<lparr>status = 500, json = JsonResolved JsonNull\<rparr>))
     = Some (ErrorInstance ''HTTP 500'')
   \<and> features (run (loadData sample_runtime
        (FetchResolved \<lparr>status = 500, json = JsonResolved JsonNull\<rparr>)) stale_state)
     = [quake_a, quake_b]
   \<and> lastUpdated (run (loadData sample_runtime
        (FetchResolved \<lparr>status = 500, json = JsonResolved JsonNull\<rparr>)) stale_state)
     = Some (Finite 1600000000000)
   \<and> error (run (loadData sample_runtime
        (FetchResolved \<lparr>status = 500, json = JsonResolved JsonNull\<rparr>)) stale_state)
     = Some ''HTTP 500''
   \<and> loading (run (loadData sample_runtime
        (FetchResolved \<lparr>status = 500, json = JsonResolved JsonNull\<rparr>)) stale_state)
     = False
   \<and> error (run (loadData sample_runtime (FetchRejected (ErrorInstance ''Failed to fetch'')))
        stale_state) = Some ''Failed to fetch''
   \<and> features (run (loadData sample_runtime (FetchRejected (ErrorInstance ''Failed to fetch'')))
        stale_state) = [quake_a, quake_b]"
  using loadData_failure [of sample_runtime
      "FetchResolved \<lparr>status = 500, json = JsonResolved JsonNull\<rparr>"
      "ErrorInstance ''HTTP 500''" stale_state "JsonResolved JsonNull" "''Failed to fetch''"
      "\<lparr>status = 500, json = JsonResolved JsonNull\<rparr>"]
  by (simp add: stale_state_def catch_message_def)

text \<open>
  C6. A load whose response has a success status and a parsed body with an empty or a
  missing feature list does not throw: the events become the empty list, the timestamp is
  set (to the feed's \<^verbatim>\<open>generated\<close> when the body has it), the error stays cleared and
  the loading flag is cleared.
\<close>

theorem loadData_empty_features:
  assumes "ok res"
    and "json res = JsonResolved (JsonObject j)"
    and "json_features j = None \<or> json_features j = Some []"
  shows "snd (try_block rt (FetchResolved res)) = None
    \<and> features (run (loadData rt (FetchResolved res)) s) = []
    \<and> lastUpdated (run (loadData rt (FetchResolved res)) s)
        = Some (nullish (Option.bind (json_metadata j) generated) (date_now rt))
    \<and> lastUpdated (run (loadData rt (FetchResolved res)) s) \<noteq> None
    \<and> error (run (loadData rt (FetchResolved res)) s) = None
    \<and> loading (run (loadData rt (FetchResolved res)) s) = False"
proof -
  from assms(1,2) have "snd (try_block rt (FetchResolved res)) = None"
    by (simp add: try_block_def)
  moreover from assms(3) have "or_array (json_features j) [] = []"
    by auto
  ultimately show ?thesis
    by (simp add: run_loadData_object [OF assms(1,2)])
qed

theorem loadData_empty_features_witness:
  "ok \<lparr>status = 200, json = JsonResolved (JsonObject
        \<lparr>json_metadata = Some \<lparr>generated = Some (Finite 1650000000000)\<rparr>,
         json_features = Some []\<rparr>)\<rparr>
   \<and> features (run (loadData sample_runtime (FetchResolved
        \<lparr>status = 200, json = JsonResolved (JsonObject
          \<lparr>json_metadata = Some \<lparr>generated = Some (Finite 1650000000000)\<rparr>,
           json_features = Some []\<rparr>)\<rparr>)) stale_state) = []
   \<and> lastUpdated (run (loadData sample_runtime (FetchResolved
        \<lparr>status = 200, json = JsonResolved (JsonObject
          \<lparr>json_metadata = Some \<lparr>generated = Some (Finite 1650000000000)\<rparr>,
           json_features = Some []\<rparr>)\<rparr>)) stale_state) = Some (Finite 1650000000000)
   \<and> error (run (loadData sample_runtime (FetchResolved
        \<lparr>status = 200, json = JsonResolved (JsonObject
          \<lparr>json_metadata = Some \<lparr>generated = Some (Finite 1650000000000)\<rparr>,
           json_features = Some []\<rparr>)\<rparr>)) stale_state) = None"
proof -
  let ?j = "\<lparr>json_metadata = Some \<lparr>generated = Some (Finite 1650000000000)\<rparr>,
            json_features = Some ([] :: EarthquakeFeature list)\<rparr>"
  let ?res = "\<lparr>status = 200, json = JsonResolved (JsonObject ?j)\<rparr>"
  have a: "ok ?res"
    by (simp add: ok_def)
  have b: "json ?res = JsonResolved (JsonObject ?j)"
    by simp
  have c: "json_features ?j = None \<or> json_features ?j = Some []"
    by simp
  from a loadData_empty_features [OF a b c, of sample_runtime stale_state]
  show ?thesis by simp
qed

text \<open>
  C10. A load whose response has a success status and a parsed body without
  \<^verbatim>\<open>metadata.generated\<close> (no \<^verbatim>\<open>metadata\<close>, or no \<^verbatim>\<open>generated\<close> in it) does not throw:
  the timestamp is set to the clock's \<^verbatim>\<open>Date.now()\<close>, the events are those of the body,
  the error stays cleared and the loading flag is cleared.
\<close>

theorem loadData_generated_fallback:
  assumes "ok res"
    and "json res = JsonResolved (JsonObject j)"
    and "json_metadata j = None \<or> (\<exists>md. json_metadata j = Some md \<and> generated md = None)"
  shows "snd (try_block rt (FetchResolved res)) = None
    \<and> lastUpdated (run (loadData rt (FetchResolved res)) s) = Some (date_now rt)
    \<and> features (run (loadData rt (FetchResolved res)) s) = or_array (json_features j) []
    \<and> error (run (loadData rt (FetchResolved res)) s) = None
    \<and> loading (run (loadData rt (FetchResolved res)) s) = False"
proof -
  from assms(1,2) have "snd (try_block rt (FetchResolved res)) = None"
    by (simp add: try_block_def)
  moreover from assms(3) have "Option.bind (json_metadata j) generated = None"
    by auto
  ultimately show ?thesis
    by (simp add: run_loadData_object [OF assms(1,2)])
qed

theorem loadData_generated_fallback_witness:
  "ok \<lparr>status = 200, json = JsonResolved (JsonObject
        \<lparr>json_metadata = Some \<lparr>generated = None\<rparr>, json_features = Some [quake_c]\<rparr>)\<rparr>
   \<and> lastUpdated (run (loadData sample_runtime (FetchResolved
        \<lparr>status = 200, json = JsonResolved (JsonObject
          \<lparr>json_metadata = Some \<lparr>generated = None\<rparr>, json_features = Some [quake_c]\<rparr>)\<rparr>))
        stale_state) = Some (Finite 1700000000000)
   \<and> features (run (loadData sample_runtime (FetchResolved
        \<lparr>status = 200, json = JsonResolved (JsonObject
          \<lparr>json_metadata = Some \<lparr>generated = None\<rparr>, json_features = Some [quake_c]\<rparr>)\<rparr>))
        stale_state) = [quake_c]
   \<and> error (run (loadData sample_runtime (FetchResolved
        \<lparr>status = 200, json = JsonResolved (JsonObject
          \<lparr>json_metadata = Some \<lparr>generated = None\<rparr>, json_features = Some [quake_c]\<rparr>)\<rparr>))
        stale_state) = None"
proof -
  let ?j = "\<lparr>json_metadata = Some \<lparr>generated = None\<rparr>, json_features = Some [quake_c]\<rparr>"
  let ?res = "\<lparr>status = 200, json = JsonResolved (JsonObject ?j)\<rparr>"
  have a: "ok ?res"
    by (simp add: ok_def)
  have b: "json ?res = JsonResolved (JsonObject ?j)"
    by simp
  have c: "json_metadata ?j = None \<or> (\<exists>md. json_metadata ?j = Some md \<and> generated md = None)"
    by simp
  from a loadData_generated_fallback [OF a b c, of sample_runtime stale_state]
  show ?thesis by (simp add: sample_runtime_def)
qed

text \<open>
  C7. The mount effect, a tick of the interval and the retry button all start a load, and
  a load first sets the loading flag, then clears the error, then issues the request:
  whatever the state before, the state at the moment of the request has the flag set and
  no error. The mount effect installs the interval with a period of 300000 ms.
\<close>

theorem fetch_attempt_begins:
  assumes "trig \<in> {Mount, IntervalTick, RetryClick}"
  shows "take 3 (handler rt trig) = [SetLoading True, SetError None, Fetch FEED_URL ''no-store'']
    \<and> take 3 (loadData rt r) = take 3 (handler rt trig)
    \<and> until_fetch (handler rt trig) = [SetLoading True, SetError None]
    \<and> loading (run (until_fetch (handler rt trig)) s) = True
    \<and> error (run (until_fetch (handler rt trig)) s) = None
    \<and> loading (run (handler rt trig) s) = True
    \<and> error (run (handler rt trig) s) = None
    \<and> handler rt Mount = handler rt IntervalTick @ [SetInterval 300000]"
proof -
  from assms have h: "handler rt trig = loadData_begin \<or> handler rt trig = loadData_begin @ [SetInterval 300000]"
    by auto
  have u: "until_fetch (loadData_begin @ rest) = [SetLoading True, SetError None]" for rest
    by (simp add: until_fetch_def loadData_begin_def is_fetch_def)
  have t: "take 3 (loadData_begin @ rest) = [SetLoading True, SetError None, Fetch FEED_URL ''no-store'']" for rest
    by (simp add: loadData_begin_def)
  have r0: "run [SetLoading True, SetError None] s = s\<lparr>loading := True, error := None\<rparr>"
    by (simp add: run_def)
  have r1: "run (loadData_begin @ [SetInterval 300000]) s = s\<lparr>loading := True, error := None\<rparr>"
    by (simp add: run_append run_loadData_begin) (simp add: run_def)
  have l: "take 3 (loadData rt r) = [SetLoading True, SetError None, Fetch FEED_URL ''no-store'']"
    unfolding loadData_def by (rule t)
  from h show ?thesis
  proof
    assume e: "handler rt trig = loadData_begin"
    with u [of "[]"] t [of "[]"] have "until_fetch (handler rt trig) = [SetLoading True, SetError None]"
      and "take 3 (handler rt trig) = [SetLoading True, SetError None, Fetch FEED_URL ''no-store'']"
      by simp_all
    with e l r0 show ?thesis
      by (simp add: run_loadData_begin)
  next
    assume e: "handler rt trig = loadData_begin @ [SetInterval 300000]"
    with u [of "[SetInterval 300000]"] t [of "[SetInterval 300000]"]
    have "until_fetch (handler rt trig) = [SetLoading True, SetError None]"
      and "take 3 (handler rt trig) = [SetLoading True, SetError None, Fetch FEED_URL ''no-store'']"
      by simp_all
    with e l r0 r1 show ?thesis
      by simp
  qed
qed

theorem fetch_attempt_begins_witness:
  "RetryClick \<in> {Mount, IntervalTick, RetryClick}
   \<and> loading stale_state = False
   \<and> error stale_state = Some ''HTTP 503''
   \<and> until_fetch (handler sample_runtime RetryClick) = [SetLoading True, SetError None]
   \<and> loading (run (until_fetch (handler sample_runtime RetryClick)) stale_state) = True
   \<and> error (run (until_fetch (handler sample_runtime RetryClick)) stale_state) = None"
proof -
  have a: "RetryClick \<in> {Mount, IntervalTick, RetryClick}"
    by simp
  have b: "loading stale_state = False \<and> error stale_state = Some ''HTTP 503''"
    by (simp add: stale_state_def)
  from a b fetch_attempt_begins [OF a, of sample_runtime "FetchRejected OtherValue" stale_state]
  show ?thesis by blast
qed

text \<open>
  C8. A change of the slider sets the threshold to the parsed value of the input and does
  nothing else: the events, the timestamp, the loading flag and the error are as before,
  and the handler issues no request.
\<close>

theorem threshold_change_frame:
  "minMag (run (handler rt (MinMagChange v)) s) = parseFloat rt v
   \<and> features (run (handler rt (MinMagChange v)) s) = features s
   \<and> lastUpdated (run (handler rt (MinMagChange v)) s) = lastUpdated s
   \<and> loading (run (handler rt (MinMagChange v)) s) = loading s
   \<and> error (run (handler rt (MinMagChange v)) s) = error s
   \<and> run (handler rt (MinMagChange v)) s = s\<lparr>minMag := parseFloat rt v\<rparr>
   \<and> filter is_fetch (handler rt (MinMagChange v)) = []
   \<and> handler rt (MinMagChange v) = [SetMinMag (parseFloat rt v)]"
  by (simp add: run_def is_fetch_def)

theorem threshold_change_frame_witness:
  "minMag (run (handler sample_runtime (MinMagChange ''2.5'')) stale_state) = Finite 2.5
   \<and> features (run (handler sample_runtime (MinMagChange ''2.5'')) stale_state) = [quake_a, quake_b]
   \<and> loading (run (handler sample_runtime (MinMagChange ''2.5'')) stale_state) = False
   \<and> error (run (handler sample_runtime (MinMagChange ''2.5'')) stale_state) = Some ''HTTP 503''
   \<and> filter is_fetch (handler sample_runtime (MinMagChange ''2.5'')) = []"
  using threshold_change_frame [of sample_runtime "''2.5''" stale_state]
  by (simp add: sample_runtime_def stale_state_def)

section \<open>Properties of the legend\<close>

lemma MagnitudeLegend_rows:
  "MagnitudeLegend =
     [\<lparr>row_key = Finite 0, swatch = ''#fdbb84'', row_label = Range (Finite 0) (Finite 2)\<rparr>,
      \<lparr>row_key = Finite 2, swatch = ''#fc8d59'', row_label = Range (Finite 2) (Finite 4)\<rparr>,
      \<lparr>row_key = Finite 4, swatch = ''#ef6548'', row_label = Range (Finite 4) (Finite 5)\<rparr>,
      \<lparr>row_key = Finite 5, swatch = ''#d7301f'', row_label = Range (Finite 5) (Finite 6)\<rparr>,
      \<lparr>row_key = Finite 6, swatch = ''#b30000'', row_label = Range (Finite 6) (Finite 7)\<rparr>,
      \<lparr>row_key = Finite 7, swatch = ''#7f0000'', row_label = From (Finite 7)\<rparr>]"
  by (simp add: MagnitudeLegend_def stops_def legend_row_of_def nth_opt_def magToColor_def
      upt_rec)

lemma stop_rounded:
  assumes "0 \<le> s" and "s \<le> 7" and "\<bar>a - 1 / 100\<bar> \<le> 1 / 1000"
  shows "\<exists>b. round64 (s + a) = Finite b \<and> s < b \<and> b < s + 1 / 50"
proof -
  from assms have small: "\<bar>s + a\<bar> \<le> 8"
    by linarith
  have "(8::real) < 2 ^ 1023"
    by simp
  with small have "\<bar>s + a\<bar> < 2 ^ 1023"
    by linarith
  then obtain b where b: "round64 (s + a) = Finite b"
    and e: "\<bar>b - (s + a)\<bar> \<le> \<bar>s + a\<bar> / 2 ^ 53 + 1 / 2 ^ 1075"
    by (rule round64_rel)
  from small have "\<bar>s + a\<bar> / 2 ^ 53 \<le> 8 / 2 ^ 53"
    by (intro divide_right_mono) simp_all
  moreover have "(8::real) / 2 ^ 53 \<le> 1 / 2000" "(1::real) / 2 ^ 1075 \<le> 1 / 2000"
    by simp_all
  ultimately have "\<bar>b - (s + a)\<bar> \<le> 1 / 1000"
    using e by linarith
  with assms(3) have "s < b \<and> b < s + 1 / 50"
    by linarith
  with b show ?thesis by blast
qed

lemma swatch_rounded:
  assumes "\<bar>a - 1 / 100\<bar> \<le> 1 / 1000" and "s \<in> {0, 2, 4, 5, 6, 7}"
  shows "magToColor (Some (add64 (Finite s) (Finite a))) = magToColor (Some (Finite (s + 1 / 100)))"
proof -
  from assms(2) have "0 \<le> s" "s \<le> 7"
    by auto
  from stop_rounded [OF this assms(1)] obtain b where
    "round64 (s + a) = Finite b" "s < b" "b < s + 1 / 50"
    by blast
  with assms(2) show ?thesis
    by (auto simp: add64_def magToColor_def)
qed

text \<open>
  The swatches of the legend are also those the program computes with its rounded sum and
  its rounded literal \<^verbatim>\<open>0.01\<close>.
\<close>

lemma legend_swatch_rounded:
  "map (\<lambda>m. magToColor (Some (add64 m (round64 (1 / 100))))) stops = map swatch MagnitudeLegend"
proof -
  have "\<bar>1 / 100 :: real\<bar> < 2 ^ 1023"
    by simp
  then obtain a where a: "round64 (1 / 100) = Finite a"
    and e: "\<bar>a - 1 / 100\<bar> \<le> \<bar>1 / 100\<bar> / 2 ^ 53 + 1 / 2 ^ 1075"
    by (rule round64_rel)
  have "\<bar>1 / 100 :: real\<bar> / 2 ^ 53 \<le> 1 / 2000" "(1::real) / 2 ^ 1075 \<le> 1 / 2000"
    by simp_all
  with e have near: "\<bar>a - 1 / 100\<bar> \<le> 1 / 1000"
    by linarith
  have "map (\<lambda>m. magToColor (Some (add64 m (Finite a)))) stops
      = map (\<lambda>m. magToColor (Some (num_add m (Finite (1 / 100))))) stops"
    unfolding stops_def using swatch_rounded [OF near] by simp
  also have "\<dots> = map swatch MagnitudeLegend"
    by (simp add: MagnitudeLegend_rows) (simp add: stops_def magToColor_def)
  finally show ?thesis
    unfolding a .
qed

lemma band_0_2: "in_band (Range (Finite 0) (Finite 2)) m \<Longrightarrow> magToColor (Some m) = ''#fdbb84''"
  by (cases m) (simp_all add: magToColor_def)

lemma band_2_4: "in_band (Range (Finite 2) (Finite 4)) m \<Longrightarrow> magToColor (Some m) = ''#fc8d59''"
  by (cases m) (simp_all add: magToColor_def)

lemma band_4_5: "in_band (Range (Finite 4) (Finite 5)) m \<Longrightarrow> magToColor (Some m) = ''#ef6548''"
  by (cases m) (simp_all add: magToColor_def)

lemma band_5_6: "in_band (Range (Finite 5) (Finite 6)) m \<Longrightarrow> magToColor (Some m) = ''#d7301f''"
  by (cases m) (simp_all add: magToColor_def)

lemma band_6_7: "in_band (Range (Finite 6) (Finite 7)) m \<Longrightarrow> magToColor (Some m) = ''#b30000''"
  by (cases m) (simp_all add: magToColor_def)

lemma band_7: "in_band (From (Finite 7)) m \<Longrightarrow> magToColor (Some m) = ''#7f0000''"
  by (cases m) (simp_all add: magToColor_def)

text \<open>
  C9. The legend has one row per stop 0, 2, 4, 5, 6, 7. The swatch of a row is the value
  of \<open>magToColor\<close> at the stop plus 0.01, and it is the colour \<open>magToColor\<close> gives to every
  magnitude of the row's band: from the stop up to the next stop, or from 7 upwards.
\<close>

theorem legend_matches_mapper:
  "map row_key MagnitudeLegend = stops
   \<and> stops = [Finite 0, Finite 2, Finite 4, Finite 5, Finite 6, Finite 7]
   \<and> map swatch MagnitudeLegend = map (\<lambda>m. magToColor (Some (num_add m (Finite 0.01)))) stops
   \<and> map row_label MagnitudeLegend =
       [Range (Finite 0) (Finite 2), Range (Finite 2) (Finite 4), Range (Finite 4) (Finite 5),
        Range (Finite 5) (Finite 6), Range (Finite 6) (Finite 7), From (Finite 7)]
   \<and> (\<forall>row\<in>set MagnitudeLegend. \<forall>m. in_band (row_label row) m \<longrightarrow>
         magToColor (Some m) = swatch row)"
proof -
  have keys: "map row_key MagnitudeLegend = stops"
    by (simp add: MagnitudeLegend_rows stops_def)
  have swatches:
    "map swatch MagnitudeLegend = map (\<lambda>m. magToColor (Some (num_add m (Finite 0.01)))) stops"
    by (simp add: MagnitudeLegend_rows) (simp add: stops_def magToColor_def)
  have labels: "map row_label MagnitudeLegend =
       [Range (Finite 0) (Finite 2), Range (Finite 2) (Finite 4), Range (Finite 4) (Finite 5),
        Range (Finite 5) (Finite 6), Range (Finite 6) (Finite 7), From (Finite 7)]"
    by (simp add: MagnitudeLegend_rows)
  have bands: "\<forall>row\<in>set MagnitudeLegend. \<forall>m. in_band (row_label row) m \<longrightarrow>
         magToColor (Some m) = swatch row"
    unfolding MagnitudeLegend_rows
    by (simp add: band_0_2 band_2_4 band_4_5 band_5_6 band_6_7 band_7)
  from keys swatches labels bands show ?thesis
    by (simp add: stops_def)
qed

theorem legend_matches_mapper_witness:
  "\<lparr>row_key = Finite 5, swatch = ''#d7301f'', row_label = Range (Finite 5) (Finite 6)\<rparr>
     \<in> set MagnitudeLegend
   \<and> in_band (Range (Finite 5) (Finite 6)) (Finite 5.5)
   \<and> magToColor (Some (Finite 5.5)) = ''#d7301f''"
proof -
  let ?row = "\<lparr>row_key = Finite 5, swatch = ''#d7301f'', row_label = Range (Finite 5) (Finite 6)\<rparr>"
  have a: "?row \<in> set MagnitudeLegend"
    by (simp add: MagnitudeLegend_rows)
  have b: "in_band (row_label ?row) (Finite 5.5)"
    by simp
  from legend_matches_mapper have
    "\<forall>row\<in>set MagnitudeLegend. \<forall>m. in_band (row_label row) m \<longrightarrow> magToColor (Some m) = swatch row"
    by blast
  with a b have "magToColor (Some (Finite 5.5)) = swatch ?row"
    by blast
  with a b show ?thesis by simp
qed

section \<open>When a load fails\<close>

lemma try_block_None_iff: "(snd (try_block rt r) = None) = (fetch_error r = None)"
  by (auto simp: try_block_def fetch_error_def
      split: fetch_result.splits json_result.splits json_body.splits)

lemma error_after_loadData:
  "error (run (loadData rt r) s) = map_option catch_message (snd (try_block rt r))"
proof (cases "snd (try_block rt r)")
  case (Some e)
  then show ?thesis by (simp add: run_loadData_thrown)
next
  case None
  then obtain res j where "r = FetchResolved res" "ok res" "json res = JsonResolved (JsonObject j)"
    by (auto simp: try_block_def
        split: fetch_result.splits json_result.splits json_body.splits if_splits)
  with None show ?thesis by (simp add: run_loadData_object)
qed

lemma string_of_nat_404: "string_of_nat 404 = ''404''"
  by (simp add: string_of_nat.simps)

text \<open>
  C4, as stated, fails on the code: a response of status 200 whose body parses to an
  object without \<^verbatim>\<open>metadata\<close> lacks a required field, so the specification's reading
  makes it a parse error; the code does not throw on it, and the load ends with the
  body's events, the clock's time and no error.
\<close>

theorem missing_field_counterexample:
  "spec_fetch_error (FetchResolved \<lparr>status = 200, json = JsonResolved (JsonObject
        \<lparr>json_metadata = None, json_features = Some [quake_a]\<rparr>)\<rparr>) = Some ParseError
   \<and> snd (try_block sample_runtime (FetchResolved \<lparr>status = 200, json = JsonResolved (JsonObject
        \<lparr>json_metadata = None, json_features = Some [quake_a]\<rparr>)\<rparr>)) = None
   \<and> error (run (loadData sample_runtime (FetchResolved \<lparr>status = 200, json = JsonResolved
        (JsonObject \<lparr>json_metadata = None, json_features = Some [quake_a]\<rparr>)\<rparr>)) stale_state) = None
   \<and> features (run (loadData sample_runtime (FetchResolved \<lparr>status = 200, json = JsonResolved
        (JsonObject \<lparr>json_metadata = None, json_features = Some [quake_a]\<rparr>)\<rparr>)) stale_state)
       = [quake_a]
   \<and> lastUpdated (run (loadData sample_runtime (FetchResolved \<lparr>status = 200, json = JsonResolved
        (JsonObject \<lparr>json_metadata = None, json_features = Some [quake_a]\<rparr>)\<rparr>)) stale_state)
       = Some (Finite 1700000000000)"
proof -
  let ?j = "\<lparr>json_metadata = None, json_features = Some [quake_a]\<rparr>"
  let ?res = "\<lparr>status = 200, json = JsonResolved (JsonObject ?j)\<rparr>"
  have a: "ok ?res"
    by (simp add: ok_def)
  have b: "json ?res = JsonResolved (JsonObject ?j)"
    by simp
  have spec: "spec_fetch_error (FetchResolved ?res) = Some ParseError"
    by (simp add: spec_fetch_error_def ok_def missing_generated_def)
  have code: "snd (try_block sample_runtime (FetchResolved ?res)) = None"
    by (simp add: try_block_def ok_def)
  from spec code show ?thesis
    by (simp add: run_loadData_object [OF a b] sample_runtime_def)
qed

text \<open>
  C4, amended. A load fails in exactly three cases: the request is rejected (no
  response), the response has a status outside 200 to 299, or the status is a success and
  the body is not JSON or is \<^verbatim>\<open>null\<close>. The error of the state is then the message of what
  was thrown: the message of the rejection (\<^verbatim>\<open>Unknown error\<close> when what was thrown is no
  \<^verbatim>\<open>Error\<close>), \<^verbatim>\<open>HTTP\<close> followed by the status, the message of the parser's rejection,
  the host's message for reading a property of \<^verbatim>\<open>null\<close>. A body that parses to an object
  is never a failure, whatever fields it lacks: the events are its feature list, or the
  empty list when it has none, and the timestamp is its \<^verbatim>\<open>metadata.generated\<close>, or the
  clock's time when it has none.
\<close>

theorem fetch_error_cases:
  "(snd (try_block rt r) = None) = (fetch_error r = None)
   \<and> (error (run (loadData rt r) s) = None) = (fetch_error r = None)
   \<and> (fetch_error r = Some NetworkError) = (\<exists>e. r = FetchRejected e)
   \<and> (fetch_error r = Some (HttpError st))
       = (\<exists>res. r = FetchResolved res \<and> \<not> ok res \<and> status res = st)
   \<and> (fetch_error r = Some ParseError)
       = (\<exists>res. r = FetchResolved res \<and> ok res
            \<and> (json res = JsonResolved JsonNull \<or> (\<exists>e. json res = JsonRejected e)))
   \<and> (fetch_error r = Some (HttpError st) \<longrightarrow>
        error (run (loadData rt r) s) = Some (''HTTP '' @ string_of_nat st))
   \<and> (ok res \<and> json res = JsonResolved (JsonObject j) \<longrightarrow>
        fetch_error (FetchResolved res) = None
        \<and> error (run (loadData rt (FetchResolved res)) s) = None)
   \<and> ok res = (200 \<le> status res \<and> status res \<le> 299)
   \<and> error (run (loadData rt (FetchRejected (ErrorInstance msg))) s) = Some msg
   \<and> error (run (loadData rt (FetchRejected OtherValue)) s) = Some ''Unknown error''
   \<and> (status res < 200 \<or> 299 < status res \<longrightarrow>
        error (run (loadData rt (FetchResolved res)) s)
          = Some (''HTTP '' @ string_of_nat (status res)))
   \<and> (200 \<le> status res \<and> status res \<le> 299 \<and> json res = JsonRejected (ErrorInstance msg) \<longrightarrow>
        error (run (loadData rt (FetchResolved res)) s) = Some msg)
   \<and> (200 \<le> status res \<and> status res \<le> 299 \<and> json res = JsonRejected OtherValue \<longrightarrow>
        error (run (loadData rt (FetchResolved res)) s) = Some ''Unknown error'')
   \<and> (200 \<le> status res \<and> status res \<le> 299 \<and> json res = JsonResolved JsonNull \<longrightarrow>
        error (run (loadData rt (FetchResolved res)) s) = Some (null_property_message rt))
   \<and> (200 \<le> status res \<and> status res \<le> 299 \<and> json res = JsonResolved (JsonObject j) \<longrightarrow>
        run (loadData rt (FetchResolved res)) s =
          s\<lparr>features := (case json_features j of None \<Rightarrow> [] | Some fs \<Rightarrow> fs),
            lastUpdated :=
              Some (case json_metadata j of
                      None \<Rightarrow> date_now rt
                    | Some md \<Rightarrow> (case generated md of None \<Rightarrow> date_now rt | Some g \<Rightarrow> g)),
            loading := False, error := None\<rparr>)"
proof -
  have code: "(snd (try_block rt r) = None) = (fetch_error r = None)"
    by (rule try_block_None_iff)
  have cell: "(error (run (loadData rt r) s) = None) = (fetch_error r = None)"
    by (simp add: error_after_loadData try_block_None_iff)
  have net: "(fetch_error r = Some NetworkError) = (\<exists>e. r = FetchRejected e)"
    by (auto simp: fetch_error_def
        split: fetch_result.splits json_result.splits json_body.splits if_splits)
  have http: "(fetch_error r = Some (HttpError st))
       = (\<exists>res. r = FetchResolved res \<and> \<not> ok res \<and> status res = st)"
    by (auto simp: fetch_error_def
        split: fetch_result.splits json_result.splits json_body.splits if_splits)
  have parse: "(fetch_error r = Some ParseError)
       = (\<exists>res. r = FetchResolved res \<and> ok res
            \<and> (json res = JsonResolved JsonNull \<or> (\<exists>e. json res = JsonRejected e)))"
    by (auto simp: fetch_error_def
        split: fetch_result.splits json_result.splits json_body.splits if_splits)
  have msg: "fetch_error r = Some (HttpError st) \<longrightarrow>
        error (run (loadData rt r) s) = Some (''HTTP '' @ string_of_nat st)"
  proof
    assume "fetch_error r = Some (HttpError st)"
    with http obtain res where "r = FetchResolved res" "\<not> ok res" "status res = st"
      by auto
    then show "error (run (loadData rt r) s) = Some (''HTTP '' @ string_of_nat st)"
      by (simp add: error_after_loadData try_block_http catch_message_def)
  qed
  have obj: "ok res \<and> json res = JsonResolved (JsonObject j) \<longrightarrow>
        fetch_error (FetchResolved res) = None
        \<and> error (run (loadData rt (FetchResolved res)) s) = None"
    by (simp add: fetch_error_def run_loadData_object)
  have range: "ok res = (200 \<le> status res \<and> status res \<le> 299)"
    by (simp add: ok_def)
  have m1: "error (run (loadData rt (FetchRejected (ErrorInstance msg))) s) = Some msg"
    by (simp add: run_loadData_settle settle_rejected)
  have m2: "error (run (loadData rt (FetchRejected OtherValue)) s) = Some ''Unknown error''"
    by (simp add: run_loadData_settle settle_rejected)
  have m3: "status res < 200 \<or> 299 < status res \<longrightarrow>
        error (run (loadData rt (FetchResolved res)) s)
          = Some (''HTTP '' @ string_of_nat (status res))"
    by (simp add: run_loadData_settle settle_http)
  have m4: "200 \<le> status res \<and> status res \<le> 299 \<and> json res = JsonRejected (ErrorInstance msg) \<longrightarrow>
        error (run (loadData rt (FetchResolved res)) s) = Some msg"
    using settle_json_rejected [of res "ErrorInstance msg" rt]
    by (simp add: run_loadData_settle)
  have m5: "200 \<le> status res \<and> status res \<le> 299 \<and> json res = JsonRejected OtherValue \<longrightarrow>
        error (run (loadData rt (FetchResolved res)) s) = Some ''Unknown error''"
    using settle_json_rejected [of res OtherValue rt]
    by (simp add: run_loadData_settle)
  have m6: "200 \<le> status res \<and> status res \<le> 299 \<and> json res = JsonResolved JsonNull \<longrightarrow>
        error (run (loadData rt (FetchResolved res)) s) = Some (null_property_message rt)"
    using settle_json_null [of res rt]
    by (simp add: run_loadData_settle)
  have snapshot:
    "200 \<le> status res \<and> status res \<le> 299 \<and> json res = JsonResolved (JsonObject j) \<longrightarrow>
        run (loadData rt (FetchResolved res)) s =
          s\<lparr>features := (case json_features j of None \<Rightarrow> [] | Some fs \<Rightarrow> fs),
            lastUpdated :=
              Some (case json_metadata j of
                      None \<Rightarrow> date_now rt
                    | Some md \<Rightarrow> (case generated md of None \<Rightarrow> date_now rt | Some g \<Rightarrow> g)),
            loading := False, error := None\<rparr>"
  proof
    assume a: "200 \<le> status res \<and> status res \<le> 299 \<and> json res = JsonResolved (JsonObject j)"
    then have "ok res" and b: "json res = JsonResolved (JsonObject j)"
      by (simp_all add: ok_def)
    from run_loadData_object [OF this, of rt s]
    show "run (loadData rt (FetchResolved res)) s =
          s\<lparr>features := (case json_features j of None \<Rightarrow> [] | Some fs \<Rightarrow> fs),
            lastUpdated :=
              Some (case json_metadata j of
                      None \<Rightarrow> date_now rt
                    | Some md \<Rightarrow> (case generated md of None \<Rightarrow> date_now rt | Some g \<Rightarrow> g)),
            loading := False, error := None\<rparr>"
      by (simp split: option.splits)
  qed
  note all = code cell net http parse msg obj range m1 m2 m3 m4 m5 m6 snapshot
  show ?thesis
    by (intro conjI all)
qed

theorem fetch_error_cases_witness:
  "fetch_error (FetchResolved \<lparr>status = 404, json = JsonRejected OtherValue\<rparr>)
     = Some (HttpError 404)
   \<and> error (run (loadData sample_runtime
        (FetchResolved \<lparr>status = 404, json = JsonRejected OtherValue\<rparr>)) stale_state)
     = Some ''HTTP 404''
   \<and> ok \<lparr>status = 200, json = JsonResolved (JsonObject
        \<lparr>json_metadata = None, json_features = None\<rparr>)\<rparr>
   \<and> error (run (loadData sample_runtime (FetchResolved \<lparr>status = 200, json = JsonResolved
        (JsonObject \<lparr>json_metadata = None, json_features = None\<rparr>)\<rparr>)) stale_state) = None
   \<and> features (run (loadData sample_runtime (FetchResolved \<lparr>status = 200, json = JsonResolved
        (JsonObject \<lparr>json_metadata = None, json_features = None\<rparr>)\<rparr>)) stale_state) = []
   \<and> lastUpdated (run (loadData sample_runtime (FetchResolved \<lparr>status = 200, json = JsonResolved
        (JsonObject \<lparr>json_metadata = None, json_features = None\<rparr>)\<rparr>)) stale_state)
       = Some (Finite 1700000000000)
   \<and> error (run (loadData sample_runtime (FetchRejected (ErrorInstance ''Failed to fetch'')))
        stale_state) = Some ''Failed to fetch''"
proof -
  let ?bad = "\<lparr>status = 404, json = JsonRejected OtherValue\<rparr>"
  let ?j = "\<lparr>json_metadata = None, json_features = None :: EarthquakeFeature list option\<rparr>"
  let ?res = "\<lparr>status = 200, json = JsonResolved (JsonObject ?j)\<rparr>"
  have a: "fetch_error (FetchResolved ?bad) = Some (HttpError 404)"
    by (simp add: fetch_error_def ok_def)
  have b: "ok ?res \<and> json ?res = JsonResolved (JsonObject ?j)"
    by (simp add: ok_def)
  from a b fetch_error_cases [of sample_runtime "FetchResolved ?bad" stale_state 404 ?res ?j
      "''Failed to fetch''"]
  show ?thesis by (simp add: string_of_nat_404 sample_runtime_def)
qed

end
